theory Spec2Isabelle
  imports Main "HOL-Library.List_Lexorder" "HOL-Library.Char_ord"
begin

section \<open>The pandorabots client \<^verbatim>\<open>pb\<close>: data model\<close>

text \<open>
  The package is a thin layer over Go's standard library. Strings are byte strings
  (\<^typ>\<open>string\<close>), Go's \<^verbatim>\<open>int\<close> is modelled by \<^typ>\<open>int\<close>: the code only compares
  such values with constants and prints them in decimal, so no arithmetic can overflow.
\<close>

type_synonym bytes = string

text \<open>
  Go errors. \<^verbatim>\<open>ErrNoCred\<close> is a package variable and is compared by identity, so it has
  a constructor of its own; \<^verbatim>\<open>errors.New\<close> and \<^verbatim>\<open>fmt.Errorf\<close> values made inside the
  package carry their message; the remaining constructors wrap the errors handed back
  by the standard library (their text is opaque to the package).
\<close>

datatype error =
    ErrNoCred
  | ErrorsNew string
  | UrlError string
  | RequestError string
  | TransportError string
  | CopyError string
  | DecodeError string

fun Error :: "error \<Rightarrow> string" where
  "Error ErrNoCred = ''Missing application ID or user key''"
| "Error (ErrorsNew msg) = msg"
| "Error (UrlError msg) = msg"
| "Error (RequestError msg) = msg"
| "Error (TransportError msg) = msg"
| "Error (CopyError msg) = msg"
| "Error (DecodeError msg) = msg"

text \<open>
  A \<^verbatim>\<open>*log.Logger\<close> is identified by a number; a call \<^verbatim>\<open>Printf(format, args...)\<close> on it is
  recorded as the logger, the format and the arguments (already rendered as text).
\<close>

type_synonym Logger = nat
type_synonym LogEntry = "Logger \<times> string \<times> string list"

text \<open>\<^verbatim>\<open>url.Values\<close>: every key has a list of values.\<close>

type_synonym Values = "string \<rightharpoonup> string list"

definition Values_Set :: "Values \<Rightarrow> string \<Rightarrow> string \<Rightarrow> Values" where
  "Values_Set vs k v = vs(k \<mapsto> [v])"

definition Values_Add :: "Values \<Rightarrow> string \<Rightarrow> string \<Rightarrow> Values" where
  "Values_Add vs k v = vs(k \<mapsto> (case vs k of None \<Rightarrow> [] | Some old \<Rightarrow> old) @ [v])"

text \<open>
  \<^verbatim>\<open>url.QueryEscape\<close>: letters, digits, minus, underscore, dot and tilde stay, a space
  becomes a plus sign, every other byte becomes a percent sign and its two upper-case
  hexadecimal digits.
\<close>

definition unreserved :: "char \<Rightarrow> bool" where
  "unreserved ch =
     (ch \<in> set ''ABCDEFGHIJKLMNOPQRSTUVWXYZabcdefghijklmnopqrstuvwxyz0123456789-_.~'')"

definition upperhex :: "nat \<Rightarrow> char" where
  "upperhex n = ''0123456789ABCDEF'' ! n"

definition escape_byte :: "char \<Rightarrow> string" where
  "escape_byte ch =
     (if unreserved ch then [ch]
      else if ch = CHR '' '' then ''+''
      else [CHR ''%'', upperhex (of_char ch div 16), upperhex (of_char ch mod 16)])"

definition QueryEscape :: "string \<Rightarrow> string" where
  "QueryEscape s = concat (map escape_byte s)"

text \<open>
  \<^verbatim>\<open>Values.Encode\<close>: the keys in sorted order, for each key its values in their order, each
  as \<^verbatim>\<open>key=value\<close> with both sides escaped, the pairs joined by \<^verbatim>\<open>&\<close>. Go compares
  strings byte by byte, which is the lexicographic order of \<^typ>\<open>string\<close>. The keys of a
  Go map are finitely many, and so are those of every map that the package builds (lemma
  \<open>op_params_finite\<close>); lemma \<open>Values_Encode_keys\<close> computes the encoding from a list
  of the keys.
\<close>

fun join_amp :: "string list \<Rightarrow> string" where
  "join_amp [] = []"
| "join_amp [p] = p"
| "join_amp (p # q # ps) = p @ ''&'' @ join_amp (q # ps)"

definition Values_pairs :: "Values \<Rightarrow> string list" where
  "Values_pairs vs =
     concat (map (\<lambda>k. map (\<lambda>v. QueryEscape k @ ''='' @ QueryEscape v)
                          (case vs k of None \<Rightarrow> [] | Some l \<Rightarrow> l))
                 (sorted_list_of_set (dom vs)))"

definition Values_Encode :: "Values \<Rightarrow> string" where
  "Values_Encode vs = join_amp (Values_pairs vs)"

text \<open>
  The request built by \<^verbatim>\<open>http.NewRequest(method, rawurl+"?"+values.Encode(), body)\<close>:
  \<open>ReqURL\<close> is the string that \<^verbatim>\<open>NewRequest\<close> is given and parses.
\<close>

record Request =
  Method :: string
  ReqURL :: string
  ReqBody :: "bytes option"

text \<open>
  The query string of a request is the \<^verbatim>\<open>RawQuery\<close> that \<^verbatim>\<open>net/url\<close> finds in its URL:
  the fragment is cut off at the first \<^verbatim>\<open>#\<close>, and in what stands before it the query is
  what follows the first \<^verbatim>\<open>?\<close>. \<open>Cut\<close> is \<^verbatim>\<open>strings.Cut\<close> with a separator of one
  byte.
\<close>

definition Cut :: "char \<Rightarrow> string \<Rightarrow> string \<times> string" where
  "Cut sep s = (takeWhile (\<lambda>ch. ch \<noteq> sep) s, drop 1 (dropWhile (\<lambda>ch. ch \<noteq> sep) s))"

definition RawQuery :: "string \<Rightarrow> string" where
  "RawQuery rawURL = snd (Cut (CHR ''?'') (fst (Cut (CHR ''#'') rawURL)))"

text \<open>
  A response body is a stream: the bytes not yet read and whether \<^verbatim>\<open>Close\<close> was called.
  The client field \<^verbatim>\<open>c\<close> is a \<^verbatim>\<open>*http.Client\<close>, whose \<^verbatim>\<open>Do\<close> returns a non-nil body
  whenever it returns no error, so the test \<^verbatim>\<open>resp.Body != nil\<close> of \<^verbatim>\<open>do\<close> always
  succeeds and the body is not optional here.
\<close>

record Body =
  unread :: bytes
  closed :: bool

record Response =
  StatusCode :: int
  Body :: Body

type_synonym HttpClient = "Request \<Rightarrow> string + Response"

record URL =
  Scheme :: string

text \<open>
  An \<^verbatim>\<open>io.Writer\<close>: the bytes written so far, and the error with which it rejects any
  further write (\<open>None\<close>: it accepts everything).
\<close>

record Sink =
  written :: bytes
  write_err :: "string option"

text \<open>
  A JSON decoder for one destination type: from the bytes available in the body and the
  current value of the destination to the error (if any), the value left in the
  destination, and the number of bytes the decoder took from the body.
\<close>

type_synonym 'a Decoder = "bytes \<Rightarrow> 'a \<Rightarrow> string option \<times> 'a \<times> nat"

text \<open>
  The \<^verbatim>\<open>result interface{}\<close> argument of \<^verbatim>\<open>do\<close>: nil, an \<^verbatim>\<open>io.Writer\<close>, or a pointer to
  a value whose dynamic type selects the JSON decoder.
\<close>

datatype 'a Result = NilResult | Writer Sink | Ptr "'a Decoder" 'a

text \<open>
  The result types. Field names are global in a theory, so the fields that \<^verbatim>\<open>BotFile\<close> and
  \<^verbatim>\<open>BotFiles\<close> share by name with \<^verbatim>\<open>BotEntry\<close> carry the prefix \<open>F\<close>. A \<^verbatim>\<open>time.Time\<close>
  is an instant, kept as a number; the package only stores it.
\<close>

record BotEntry =
  Name :: string
  Description :: string
  Language :: string
  Compiled :: string
  Open :: string

datatype Time = Time int

record BotFile =
  FName :: string
  Size :: int
  Modified :: Time
  LoadOrder :: int
  Items :: int

record BotFiles =
  Username :: string
  Appname :: string
  Botname :: string
  FDescription :: string
  FLanguage :: string
  Created :: Time
  FOpen :: string
  Files :: "BotFile list"
  Sets :: "BotFile list"
  Maps :: "BotFile list"
  Substitutions :: "BotFile list"
  Properties :: "BotFile list"
  Pdefaults :: "BotFile list"

record Reply =
  SessionId :: int
  Responses :: "string list"

text \<open>
  What the package takes from the standard library and the platform, as parameters:
  \<^verbatim>\<open>url.Parse\<close> (error text or the parsed URL), \<^verbatim>\<open>http.StatusText\<close>, the check made by
  \<^verbatim>\<open>http.NewRequest\<close> on the method and the URL string (its error text, if any),
  \<^verbatim>\<open>http.DefaultClient\<close>,
  \<^verbatim>\<open>os.IsPathSeparator\<close>, the text produced by \<^verbatim>\<open>httputil.DumpRequestOut\<close> (or none on
  error) and by \<^verbatim>\<open>httputil.DumpResponse\<close> (from status and body), the JSON decoders of
  the three result types, and the size of the chunks in which \<^verbatim>\<open>io.Copy\<close> reads.
\<close>

record stdlib =
  url_Parse :: "string \<Rightarrow> string + URL"
  http_StatusText :: "int \<Rightarrow> string"
  http_NewRequest :: "string \<Rightarrow> string \<Rightarrow> string option"
  http_DefaultClient :: HttpClient
  os_IsPathSeparator :: "char \<Rightarrow> bool"
  DumpRequestOut :: "Request \<Rightarrow> string option"
  DumpResponseText :: "int \<Rightarrow> bytes \<Rightarrow> string"
  json_BotEntries :: "BotEntry list Decoder"
  json_BotFiles :: "BotFiles Decoder"
  json_Reply :: "Reply Decoder"
  copy_chunk :: nat

record Client =
  appId :: string
  userKey :: string
  url :: string
  errorlog :: "Logger option"
  tracelog :: "Logger option"
  c :: HttpClient

definition DefaultURL :: string where
  "DefaultURL = ''https://aiaas.pandorabots.com''"

definition bot :: string where
  "bot = ''bot''"

definition talk :: string where
  "talk = ''talk''"

type_synonym OptionFunc = "Client \<Rightarrow> (error + Client) \<times> LogEntry list"

section \<open>Logging\<close>

definition errorf :: "Client \<Rightarrow> string \<Rightarrow> string list \<Rightarrow> LogEntry list" where
  "errorf cl format args =
     (case errorlog cl of None \<Rightarrow> [] | Some lg \<Rightarrow> [(lg, format, args)])"

definition tracef :: "Client \<Rightarrow> string \<Rightarrow> string list \<Rightarrow> LogEntry list" where
  "tracef cl format args =
     (case tracelog cl of None \<Rightarrow> [] | Some lg \<Rightarrow> [(lg, format, args)])"

section \<open>Construction\<close>

definition HasSuffix :: "string \<Rightarrow> string \<Rightarrow> bool" where
  "HasSuffix s suffix =
     (length suffix \<le> length s \<and> drop (length s - length suffix) s = suffix)"

definition SetCredentials :: "string \<Rightarrow> string \<Rightarrow> OptionFunc" where
  "SetCredentials a k = (\<lambda>cl. (Inr (cl\<lparr>appId := a, userKey := k\<rparr>), []))"

definition SetHttpClient :: "stdlib \<Rightarrow> HttpClient option \<Rightarrow> OptionFunc" where
  "SetHttpClient std httpClient =
     (\<lambda>cl. (case httpClient of
               Some h \<Rightarrow> (Inr (cl\<lparr>c := h\<rparr>), [])
             | None \<Rightarrow> (Inr (cl\<lparr>c := http_DefaultClient std\<rparr>), [])))"

definition SetUrl :: "stdlib \<Rightarrow> string \<Rightarrow> OptionFunc" where
  "SetUrl std rawurl0 =
     (\<lambda>cl. let rawurl = (if rawurl0 = [] then DefaultURL else rawurl0) in
        (case url_Parse std rawurl of
           Inl e \<Rightarrow>
             (Inl (UrlError e),
              errorf cl (''Invalid URL [%s] - %v'' @ [CHR 0x0A]) [rawurl, Error (UrlError e)])
         | Inr u \<Rightarrow>
             if Scheme u \<noteq> ''http'' \<and> Scheme u \<noteq> ''https'' then
               (let msg = ''Invalid schema specified ['' @ rawurl @ '']''
                in (Inl (ErrorsNew msg), errorf cl msg []))
             else (Inr (cl\<lparr>url := rawurl\<rparr>), [])))"

definition SetErrorLog :: "Logger option \<Rightarrow> OptionFunc" where
  "SetErrorLog logger = (\<lambda>cl. (Inr (cl\<lparr>errorlog := logger\<rparr>), []))"

definition SetTraceLog :: "Logger option \<Rightarrow> OptionFunc" where
  "SetTraceLog logger = (\<lambda>cl. (Inr (cl\<lparr>tracelog := logger\<rparr>), []))"

text \<open>
  The loop of \<^verbatim>\<open>New\<close> over the options: the first error stops it (\<^verbatim>\<open>New\<close> then returns
  nil and that error), what was logged so far stays logged.
\<close>

fun run_options :: "OptionFunc list \<Rightarrow> Client \<Rightarrow> (error + Client) \<times> LogEntry list" where
  "run_options [] cl = (Inr cl, [])"
| "run_options (option # options) cl =
     (case option cl of
        (Inl e, lg) \<Rightarrow> (Inl e, lg)
      | (Inr cl', lg) \<Rightarrow>
          (case run_options options cl' of (r, lg') \<Rightarrow> (r, lg @ lg')))"

definition newClient :: "stdlib \<Rightarrow> Client" where
  "newClient std =
     \<lparr>appId = [], userKey = [], url = [], errorlog = None, tracelog = None,
      c = http_DefaultClient std\<rparr>"

definition New :: "stdlib \<Rightarrow> OptionFunc list \<Rightarrow> (error + Client) \<times> LogEntry list" where
  "New std options =
     (case run_options options (newClient std) of
        (Inl e, lg) \<Rightarrow> (Inl e, lg)
      | (Inr cl, lg) \<Rightarrow>
          if appId cl = [] \<or> userKey cl = [] then
            (Inl ErrNoCred, lg @ errorf cl (Error ErrNoCred) [])
          else
            (let cl1 = (if url cl = [] then cl\<lparr>url := DefaultURL\<rparr> else cl);
                 cl2 = (if HasSuffix (url cl1) ''/''
                        then cl1\<lparr>url := take (length (url cl1) - 1) (url cl1)\<rparr> else cl1)
             in (Inr cl2, lg @ tracef cl2 (''Using URL [%s]'' @ [CHR 0x0A]) [url cl2])))"

section \<open>URL construction\<close>

text \<open>\<^verbatim>\<open>strconv.Itoa\<close>, and \<^verbatim>\<open>%d\<close> of \<^verbatim>\<open>fmt.Sprintf\<close>: the decimal numeral of an integer.\<close>

function decimal :: "nat \<Rightarrow> string" where
  "decimal n =
     (if n < 10 then [''0123456789'' ! n]
      else decimal (n div 10) @ [''0123456789'' ! (n mod 10)])"
  by pat_completeness auto
termination
  by (relation "measure (\<lambda>n. n)") auto

definition Itoa :: "int \<Rightarrow> string" where
  "Itoa i = (if i < 0 then CHR ''-'' # decimal (nat (- i)) else decimal (nat i))"

text \<open>
  \<^verbatim>\<open>filepath.Ext\<close>: scanning from the end of the path, the suffix that starts at the first
  dot met, or the empty string when a path separator or the start of the path comes
  first. The first argument of \<open>Ext_scan\<close> is the part of the path still to scan,
  reversed; the last is the part already scanned.
\<close>

fun Ext_scan :: "(char \<Rightarrow> bool) \<Rightarrow> string \<Rightarrow> string \<Rightarrow> string" where
  "Ext_scan sep [] seen = []"
| "Ext_scan sep (ch # before) seen =
     (if sep ch then []
      else if ch = CHR ''.'' then ch # seen
      else Ext_scan sep before (ch # seen))"

definition Ext :: "stdlib \<Rightarrow> string \<Rightarrow> string" where
  "Ext std path = Ext_scan (os_IsPathSeparator std) (rev path) []"

definition appUrl :: "Client \<Rightarrow> string \<Rightarrow> string" where
  "appUrl cl action = url cl @ ''/'' @ action @ ''/'' @ appId cl"

definition botUrl :: "Client \<Rightarrow> string \<Rightarrow> string \<Rightarrow> string" where
  "botUrl cl action botName = appUrl cl action @ ''/'' @ botName"

definition fileToUrl :: "stdlib \<Rightarrow> Client \<Rightarrow> string \<Rightarrow> string \<Rightarrow> error + string" where
  "fileToUrl std cl name filename =
     (let rawurl = botUrl cl bot name;
          ext = Ext std filename
      in if ext = ''.aiml'' then
           Inr (rawurl @ ''/file/'' @ filename)
         else if ext = ''.set'' \<or> ext = ''.map'' \<or> ext = ''.substitution'' then
           Inr (rawurl @ ''/'' @ drop 1 ext @ ''/'' @
                take (length filename - length ext) filename)
         else if ext = ''.properties'' \<or> ext = ''.pdefaults'' then
           Inr (rawurl @ ''/'' @ drop 1 ext)
         else Inl (ErrorsNew (''Extension is not recognized ['' @ ext @ '']'')))"

section \<open>Request handling\<close>

text \<open>
  What a call leaves behind, besides its return values: the error returned, the
  requests handed to the transport, the state in which the call leaves the body that the
  transport returned (\<open>None\<close> when no response arrived), the log output, and which
  result decoding was attempted.
\<close>

datatype Decoding = NotAttempted | RawCopy | JsonDecode

record Effects =
  err :: "error option"
  issued :: "Request list"
  final_body :: "Body option"
  logged :: "LogEntry list"
  decoding :: Decoding

text \<open>
  \<^verbatim>\<open>httputil.DumpResponse(resp, true)\<close> reads the body to its end, closes it and puts an
  in-memory copy in its place: the result is the dump, the response with the copy as its
  body, and the former body as it is left.
\<close>

definition DumpResponse :: "stdlib \<Rightarrow> Response \<Rightarrow> string \<times> Response \<times> Body" where
  "DumpResponse std resp =
     (let bs = unread (Body resp)
      in (DumpResponseText std (StatusCode resp) bs,
          resp\<lparr>Body := \<lparr>unread = bs, closed = False\<rparr>\<rparr>,
          (Body resp)\<lparr>unread := [], closed := True\<rparr>))"

definition dumpRequest :: "stdlib \<Rightarrow> Client \<Rightarrow> Request \<Rightarrow> LogEntry list" where
  "dumpRequest std cl req =
     (case tracelog cl of
        None \<Rightarrow> []
      | Some lg \<Rightarrow>
          (case DumpRequestOut std req of
             None \<Rightarrow> []
           | Some out \<Rightarrow> tracef cl (''%s'' @ [CHR 0x0A]) [out]))"

text \<open>
  \<open>dumpResponse\<close> and \<open>handleError\<close> return, with the log output, the response as they
  leave it and the former body when a dump replaced it (\<open>None\<close>: the response still
  holds the body of the transport).
\<close>

definition dumpResponse ::
  "stdlib \<Rightarrow> Client \<Rightarrow> Response \<Rightarrow> LogEntry list \<times> Response \<times> Body option" where
  "dumpResponse std cl resp =
     (case tracelog cl of
        None \<Rightarrow> ([], resp, None)
      | Some lg \<Rightarrow>
          (case DumpResponse std resp of
             (out, resp', old) \<Rightarrow> (tracef cl (''%s'' @ [CHR 0x0A]) [out], resp', Some old)))"

definition handleError ::
  "stdlib \<Rightarrow> Client \<Rightarrow> Response \<Rightarrow> error option \<times> LogEntry list \<times> Response \<times> Body option" where
  "handleError std cl resp =
     (if StatusCode resp < 200 \<or> StatusCode resp \<ge> 300 then
        (case (case errorlog cl of
                 None \<Rightarrow> ([], resp, None)
               | Some lg \<Rightarrow>
                   (case DumpResponse std resp of
                      (out, resp', old) \<Rightarrow>
                        (errorf cl (''%s'' @ [CHR 0x0A]) [out], resp', Some old))) of
           (lg1, resp1, old1) \<Rightarrow>
             (let msg = ''Unexpected status code: '' @ Itoa (StatusCode resp) @ '' ('' @
                        http_StatusText std (StatusCode resp) @ '')''
              in (Some (ErrorsNew msg), lg1 @ errorf cl msg [], resp1, old1)))
      else (None, [], resp, None))"

text \<open>
  \<^verbatim>\<open>io.Copy(dst, src)\<close>: nothing is written when the source is at its end; a sink that
  rejects writes fails the copy after one chunk was read; otherwise all unread bytes go
  to the sink.
\<close>

definition io_Copy :: "nat \<Rightarrow> Sink \<Rightarrow> Body \<Rightarrow> string option \<times> Sink \<times> Body" where
  "io_Copy chunk dst src =
     (if unread src = [] then (None, dst, src)
      else (case write_err dst of
              Some e \<Rightarrow> (Some e, dst, src\<lparr>unread := drop chunk (unread src)\<rparr>)
            | None \<Rightarrow>
                (None, dst\<lparr>written := written dst @ unread src\<rparr>, src\<lparr>unread := []\<rparr>)))"

text \<open>
  The loop \<^verbatim>\<open>for k, v := range params { values.Add(k, v) }\<close>: the keys of a Go map are
  distinct, so each \<^verbatim>\<open>Add\<close> touches a key of its own and the result does not depend on
  the order of iteration.
\<close>

definition add_params :: "(string \<rightharpoonup> string) \<Rightarrow> Values \<Rightarrow> Values" where
  "add_params params vs =
     (\<lambda>k. case params k of None \<Rightarrow> vs k | Some v \<Rightarrow> Values_Add vs k v k)"

text \<open>
  The deferred \<^verbatim>\<open>resp.Body.Close()\<close> acts on the body that the transport returned,
  whether or not a dump has replaced it in the response since.
\<close>

definition deferred_Close :: "Response \<Rightarrow> Body option \<Rightarrow> Body option" where
  "deferred_Close resp old =
     Some ((case old of None \<Rightarrow> Body resp | Some b \<Rightarrow> b)\<lparr>closed := True\<rparr>)"

definition do ::
  "stdlib \<Rightarrow> Client \<Rightarrow> string \<Rightarrow> string \<Rightarrow> (string \<rightharpoonup> string) \<Rightarrow> bytes option \<Rightarrow>
   'a Result \<Rightarrow> 'a Result \<times> Effects" where
  "do std cl method rawurl params body result =
     (let values = add_params params (Values_Set Map.empty ''user_key'' (userKey cl));
          target = rawurl @ ''?'' @ Values_Encode values in
      case http_NewRequest std method target of
        Some e \<Rightarrow>
          (result, \<lparr>err = Some (RequestError e), issued = [], final_body = None,
                    logged = [], decoding = NotAttempted\<rparr>)
      | None \<Rightarrow>
          (let req = \<lparr>Method = method, ReqURL = target, ReqBody = body\<rparr>;
               lg0 = dumpRequest std cl req
           in case c cl req of
                Inl e \<Rightarrow>
                  (result, \<lparr>err = Some (TransportError e), issued = [req],
                            final_body = None, logged = lg0, decoding = NotAttempted\<rparr>)
              | Inr resp \<Rightarrow>
                  (case handleError std cl resp of
                     (Some e, lg1, resp1, old1) \<Rightarrow>
                       (result, \<lparr>err = Some e, issued = [req],
                                 final_body = deferred_Close resp1 old1,
                                 logged = lg0 @ lg1, decoding = NotAttempted\<rparr>)
                   | (None, lg1, resp1, old1) \<Rightarrow>
                       (case dumpResponse std cl resp1 of
                          (lg2, resp2, old2) \<Rightarrow>
                            (let old = (case old1 of None \<Rightarrow> old2 | Some b \<Rightarrow> Some b);
                                 lg = lg0 @ lg1 @ lg2
                             in case result of
                                  NilResult \<Rightarrow>
                                    (result, \<lparr>err = None, issued = [req],
                                              final_body = deferred_Close resp2 old,
                                              logged = lg, decoding = NotAttempted\<rparr>)
                                | Writer w \<Rightarrow>
                                    (case io_Copy (copy_chunk std) w (Body resp2) of
                                       (e, w', b') \<Rightarrow>
                                         (Writer w',
                                          \<lparr>err = map_option CopyError e, issued = [req],
                                           final_body = deferred_Close (resp2\<lparr>Body := b'\<rparr>) old,
                                           logged = lg, decoding = RawCopy\<rparr>))
                                | Ptr dec v \<Rightarrow>
                                    (case dec (unread (Body resp2)) v of
                                       (e, v', n) \<Rightarrow>
                                         (Ptr dec v',
                                          \<lparr>err = map_option DecodeError e, issued = [req],
                                           final_body =
                                             deferred_Close
                                               (resp2\<lparr>Body := (Body resp2)
                                                  \<lparr>unread := drop n (unread (Body resp2))\<rparr>\<rparr>) old,
                                           logged = lg, decoding = JsonDecode\<rparr>)))))))"

section \<open>Operations\<close>

text \<open>
  Each operation returns its Go results (where it has any besides the error) and the
  effects of the call; the error it returns is the field \<open>err\<close> of the effects. The
  helpers that take a path in the local file system (\<^verbatim>\<open>DownloadFilesToPath\<close>,
  \<^verbatim>\<open>UploadFileFromPath\<close>, \<^verbatim>\<open>GetFileToPath\<close>) open the file and then proceed as the
  operation on a reader or writer does; they are not modelled.
\<close>

definition deref :: "'a Result \<Rightarrow> 'a \<Rightarrow> 'a" where
  "deref r dflt = (case r of Ptr dec v \<Rightarrow> v | _ \<Rightarrow> dflt)"

definition as_writer :: "Sink option \<Rightarrow> unit Result" where
  "as_writer w = (case w of None \<Rightarrow> NilResult | Some s \<Rightarrow> Writer s)"

definition sink_of :: "unit Result \<Rightarrow> Sink option" where
  "sink_of r = (case r of Writer s \<Rightarrow> Some s | _ \<Rightarrow> None)"

definition no_result :: "unit Result" where
  "no_result = NilResult"

definition List :: "stdlib \<Rightarrow> Client \<Rightarrow> BotEntry list \<times> Effects" where
  "List std cl =
     (case do std cl ''GET'' (appUrl cl bot) Map.empty None (Ptr (json_BotEntries std) []) of
        (r, eff) \<Rightarrow> (deref r [], eff))"

definition CreateBot :: "stdlib \<Rightarrow> Client \<Rightarrow> string \<Rightarrow> Effects" where
  "CreateBot std cl name = snd (do std cl ''PUT'' (botUrl cl bot name) Map.empty None no_result)"

definition DeleteBot :: "stdlib \<Rightarrow> Client \<Rightarrow> string \<Rightarrow> Effects" where
  "DeleteBot std cl name =
     snd (do std cl ''DELETE'' (botUrl cl bot name) Map.empty None no_result)"

definition zero_BotFiles :: BotFiles where
  "zero_BotFiles =
     \<lparr>Username = [], Appname = [], Botname = [], FDescription = [], FLanguage = [],
      Created = Time 0, FOpen = [], Files = [], Sets = [], Maps = [], Substitutions = [],
      Properties = [], Pdefaults = []\<rparr>"

definition ListFiles :: "stdlib \<Rightarrow> Client \<Rightarrow> string \<Rightarrow> BotFiles \<times> Effects" where
  "ListFiles std cl name =
     (case do std cl ''GET'' (botUrl cl bot name) Map.empty None
             (Ptr (json_BotFiles std) zero_BotFiles) of
        (r, eff) \<Rightarrow> (deref r zero_BotFiles, eff))"

text \<open>
  The operations that write to a caller's \<^verbatim>\<open>io.Writer\<close> return the writer as the call
  leaves it (\<open>None\<close>: the caller passed nil).
\<close>

definition DownloadFiles :: "stdlib \<Rightarrow> Client \<Rightarrow> string \<Rightarrow> Sink option \<Rightarrow> Sink option \<times> Effects" where
  "DownloadFiles std cl name zipw =
     (case do std cl ''GET'' (botUrl cl bot name) [''return'' \<mapsto> ''zip''] None (as_writer zipw) of
        (r, eff) \<Rightarrow> (sink_of r, eff))"

definition failed :: "error \<Rightarrow> Effects" where
  "failed e = \<lparr>err = Some e, issued = [], final_body = None, logged = [],
               decoding = NotAttempted\<rparr>"

definition UploadFile :: "stdlib \<Rightarrow> Client \<Rightarrow> string \<Rightarrow> string \<Rightarrow> bytes option \<Rightarrow> Effects" where
  "UploadFile std cl name filename data =
     (case fileToUrl std cl name filename of
        Inl e \<Rightarrow> failed e
      | Inr rawurl \<Rightarrow> snd (do std cl ''PUT'' rawurl Map.empty data no_result))"

definition DeleteFile :: "stdlib \<Rightarrow> Client \<Rightarrow> string \<Rightarrow> string \<Rightarrow> Effects" where
  "DeleteFile std cl name filename =
     (case fileToUrl std cl name filename of
        Inl e \<Rightarrow> failed e
      | Inr rawurl \<Rightarrow> snd (do std cl ''DELETE'' rawurl Map.empty None no_result))"

definition GetFile ::
  "stdlib \<Rightarrow> Client \<Rightarrow> string \<Rightarrow> string \<Rightarrow> Sink option \<Rightarrow> Sink option \<times> Effects" where
  "GetFile std cl name filename out =
     (case fileToUrl std cl name filename of
        Inl e \<Rightarrow> (out, failed e)
      | Inr rawurl \<Rightarrow>
          (case do std cl ''GET'' rawurl Map.empty None (as_writer out) of
             (r, eff) \<Rightarrow> (sink_of r, eff)))"

definition Verify :: "stdlib \<Rightarrow> Client \<Rightarrow> string \<Rightarrow> Effects" where
  "Verify std cl name =
     snd (do std cl ''GET'' (botUrl cl bot name @ ''/verify'') Map.empty None no_result)"

text \<open>The parameter map that \<^verbatim>\<open>TalkDebug\<close> fills before it calls \<^verbatim>\<open>do\<close>.\<close>

definition TalkDebug_params ::
  "string \<Rightarrow> string \<Rightarrow> int \<Rightarrow> bool \<Rightarrow> string \<Rightarrow> string \<Rightarrow> bool \<Rightarrow> bool \<Rightarrow> bool \<Rightarrow> bool \<Rightarrow>
   (string \<rightharpoonup> string)" where
  "TalkDebug_params input clientName sessionId recent that topic extra reset trace reload =
     (let p0 = [''input'' \<mapsto> input];
          p1 = (if clientName \<noteq> [] then p0(''client_name'' \<mapsto> clientName) else p0);
          p2 = (if sessionId \<noteq> 0 then p1(''sessionid'' \<mapsto> Itoa sessionId) else p1);
          p3 = (if recent then p2(''recent'' \<mapsto> ''true'') else p2);
          p4 = (if that \<noteq> [] then p3(''that'' \<mapsto> that) else p3);
          p5 = (if topic \<noteq> [] then p4(''topic'' \<mapsto> topic) else p4);
          p6 = (if extra then p5(''extra'' \<mapsto> ''true'') else p5);
          p7 = (if reset then p6(''reset'' \<mapsto> ''true'') else p6);
          p8 = (if trace then p7(''trace'' \<mapsto> ''true'') else p7);
          p9 = (if reload then p8(''reload'' \<mapsto> ''true'') else p8)
      in p9)"

definition zero_Reply :: Reply where
  "zero_Reply = \<lparr>SessionId = 0, Responses = []\<rparr>"

text \<open>
  \<^verbatim>\<open>Talk\<close> and \<^verbatim>\<open>TalkDebug\<close> return a \<^verbatim>\<open>*Reply\<close>: \<open>None\<close> stands for the nil pointer,
  \<open>Some r\<close> for a pointer to the reply \<open>r\<close>.
\<close>

definition TalkDebug ::
  "stdlib \<Rightarrow> Client \<Rightarrow> string \<Rightarrow> string \<Rightarrow> string \<Rightarrow> int \<Rightarrow> bool \<Rightarrow> string \<Rightarrow> string \<Rightarrow>
   bool \<Rightarrow> bool \<Rightarrow> bool \<Rightarrow> bool \<Rightarrow> Reply option \<times> Effects" where
  "TalkDebug std cl name input clientName sessionId recent that topic extra reset trace reload =
     (case do std cl ''POST'' (botUrl cl talk name)
             (TalkDebug_params input clientName sessionId recent that topic extra reset
                trace reload)
             None (Ptr (json_Reply std) zero_Reply) of
        (r, eff) \<Rightarrow> (Some (deref r zero_Reply), eff))"

definition Talk ::
  "stdlib \<Rightarrow> Client \<Rightarrow> string \<Rightarrow> string \<Rightarrow> string \<Rightarrow> int \<Rightarrow> bool \<Rightarrow> Reply option \<times> Effects" where
  "Talk std cl name input clientName sessionId recent =
     TalkDebug std cl name input clientName sessionId recent [] [] False False False False"

text \<open>
  The operations of the package, with their arguments, and the effects of performing
  one; \<open>op_params\<close> is the parameter map that the operation hands to \<^verbatim>\<open>do\<close>.
\<close>

datatype Operation =
    OpList
  | OpCreateBot string
  | OpDeleteBot string
  | OpListFiles string
  | OpDownloadFiles string "Sink option"
  | OpUploadFile string string "bytes option"
  | OpDeleteFile string string
  | OpGetFile string string "Sink option"
  | OpVerify string
  | OpTalk string string string int bool
  | OpTalkDebug string string string int bool string string bool bool bool bool

fun perform :: "stdlib \<Rightarrow> Client \<Rightarrow> Operation \<Rightarrow> Effects" where
  "perform std cl OpList = snd (List std cl)"
| "perform std cl (OpCreateBot name) = CreateBot std cl name"
| "perform std cl (OpDeleteBot name) = DeleteBot std cl name"
| "perform std cl (OpListFiles name) = snd (ListFiles std cl name)"
| "perform std cl (OpDownloadFiles name zipw) = snd (DownloadFiles std cl name zipw)"
| "perform std cl (OpUploadFile name filename data) = UploadFile std cl name filename data"
| "perform std cl (OpDeleteFile name filename) = DeleteFile std cl name filename"
| "perform std cl (OpGetFile name filename out) = snd (GetFile std cl name filename out)"
| "perform std cl (OpVerify name) = Verify std cl name"
| "perform std cl (OpTalk name input clientName sessionId recent) =
     snd (Talk std cl name input clientName sessionId recent)"
| "perform std cl (OpTalkDebug name input clientName sessionId recent that topic extra
      reset trace reload) =
     snd (TalkDebug std cl name input clientName sessionId recent that topic extra reset
            trace reload)"

fun op_params :: "Operation \<Rightarrow> (string \<rightharpoonup> string)" where
  "op_params (OpDownloadFiles name zipw) = [''return'' \<mapsto> ''zip'']"
| "op_params (OpTalk name input clientName sessionId recent) =
     TalkDebug_params input clientName sessionId recent [] [] False False False False"
| "op_params (OpTalkDebug name input clientName sessionId recent that topic extra reset
      trace reload) =
     TalkDebug_params input clientName sessionId recent that topic extra reset trace reload"
| "op_params _ = Map.empty"

text \<open>The URL that the operation hands to \<^verbatim>\<open>do\<close>, when it gets that far.\<close>

fun op_url :: "stdlib \<Rightarrow> Client \<Rightarrow> Operation \<Rightarrow> error + string" where
  "op_url std cl OpList = Inr (appUrl cl bot)"
| "op_url std cl (OpCreateBot name) = Inr (botUrl cl bot name)"
| "op_url std cl (OpDeleteBot name) = Inr (botUrl cl bot name)"
| "op_url std cl (OpListFiles name) = Inr (botUrl cl bot name)"
| "op_url std cl (OpDownloadFiles name zipw) = Inr (botUrl cl bot name)"
| "op_url std cl (OpUploadFile name filename data) = fileToUrl std cl name filename"
| "op_url std cl (OpDeleteFile name filename) = fileToUrl std cl name filename"
| "op_url std cl (OpGetFile name filename out) = fileToUrl std cl name filename"
| "op_url std cl (OpVerify name) = Inr (botUrl cl bot name @ ''/verify'')"
| "op_url std cl (OpTalk name input clientName sessionId recent) = Inr (botUrl cl talk name)"
| "op_url std cl (OpTalkDebug name input clientName sessionId recent that topic extra reset
      trace reload) = Inr (botUrl cl talk name)"

section \<open>A sample environment\<close>

text \<open>
  Stand-ins for the standard library, used to evaluate the package on concrete inputs.
  \<open>sample_Parse\<close> follows the scheme split of \<^verbatim>\<open>net/url\<close> (letters, then also digits,
  plus, minus and dot, up to the first colon; the scheme in lower case) and accepts
  whatever follows the scheme.
\<close>

definition is_letter :: "char \<Rightarrow> bool" where
  "is_letter ch = (ch \<in> set ''abcdefghijklmnopqrstuvwxyzABCDEFGHIJKLMNOPQRSTUVWXYZ'')"

definition is_scheme_char :: "char \<Rightarrow> bool" where
  "is_scheme_char ch = (ch \<in> set ''0123456789+-.'')"

fun getScheme :: "nat \<Rightarrow> string \<Rightarrow> string \<Rightarrow> string + string" where
  "getScheme i seen [] = Inr []"
| "getScheme i seen (ch # rest) =
     (if is_letter ch then getScheme (Suc i) (seen @ [ch]) rest
      else if is_scheme_char ch then
        (if i = 0 then Inr [] else getScheme (Suc i) (seen @ [ch]) rest)
      else if ch = CHR '':'' then
        (if i = 0 then Inl ''missing protocol scheme'' else Inr seen)
      else Inr [])"

definition ToLower_char :: "char \<Rightarrow> char" where
  "ToLower_char ch =
     (case map_of (zip ''ABCDEFGHIJKLMNOPQRSTUVWXYZ'' ''abcdefghijklmnopqrstuvwxyz'') ch of
        None \<Rightarrow> ch | Some l \<Rightarrow> l)"

definition sample_Parse :: "string \<Rightarrow> string + URL" where
  "sample_Parse rawurl =
     (case getScheme 0 [] rawurl of
        Inl e \<Rightarrow> Inl e
      | Inr scheme \<Rightarrow> Inr \<lparr>Scheme = map ToLower_char scheme\<rparr>)"

definition sample_StatusText :: "int \<Rightarrow> string" where
  "sample_StatusText code =
     (if code = 200 then ''OK''
      else if code = 404 then ''Not Found''
      else if code = 500 then ''Internal Server Error''
      else [])"

text \<open>A transport that answers every request with the given status and body.\<close>

definition sample_transport :: "int \<Rightarrow> bytes \<Rightarrow> HttpClient" where
  "sample_transport code bs =
     (\<lambda>req. Inr \<lparr>StatusCode = code, Body = \<lparr>unread = bs, closed = False\<rparr>\<rparr>)"

text \<open>
  A decoder that accepts the empty JSON object, which leaves the destination as it is,
  and reports an error on any other body.
\<close>

definition sample_json :: "'a Decoder" where
  "sample_json bs v =
     (if bs = ''{}'' then (None, v, length bs) else (Some ''invalid character'', v, length bs))"

definition sample_std :: stdlib where
  "sample_std =
     \<lparr>url_Parse = sample_Parse,
      http_StatusText = sample_StatusText,
      http_NewRequest = (\<lambda>method target. None),
      http_DefaultClient = sample_transport 200 ''{}'',
      os_IsPathSeparator = (\<lambda>ch. ch = CHR ''/''),
      DumpRequestOut = (\<lambda>req. Some (Method req @ '' '' @ ReqURL req)),
      DumpResponseText = (\<lambda>code bs. bs),
      json_BotEntries = sample_json,
      json_BotFiles = sample_json,
      json_Reply = sample_json,
      copy_chunk = 32768\<rparr>"

definition sample_client :: "HttpClient \<Rightarrow> Client" where
  "sample_client h =
     \<lparr>appId = ''app'', userKey = ''key'', url = ''https://aiaas.pandorabots.com'',
      errorlog = None, tracelog = None, c = h\<rparr>"

section \<open>Construction: credentials and base URL\<close>

lemma run_options_append:
  "run_options (xs @ ys) cl =
     (case run_options xs cl of
        (Inl e, lg) \<Rightarrow> (Inl e, lg)
      | (Inr cl', lg) \<Rightarrow> (case run_options ys cl' of (r, lg') \<Rightarrow> (r, lg @ lg')))"
  by (induction xs arbitrary: cl) (auto split: prod.splits sum.splits)

lemma run_options_not_ErrNoCred:
  "\<forall>opt\<in>set options. \<forall>cl. fst (opt cl) \<noteq> Inl ErrNoCred \<Longrightarrow>
   fst (run_options options cl) \<noteq> Inl ErrNoCred"
proof (induction options arbitrary: cl)
  case Nil
  then show ?case by simp
next
  case (Cons opt options)
  show ?case
  proof (cases "opt cl")
    case (Pair r lg)
    show ?thesis
    proof (cases r)
      case (Inl e)
      with Pair Cons.prems have "e \<noteq> ErrNoCred"
        by (metis fst_conv list.set_intros(1))
      with Pair Inl show ?thesis by simp
    next
      case (Inr cl')
      from Cons.prems have "\<forall>opt\<in>set options. \<forall>cl. fst (opt cl) \<noteq> Inl ErrNoCred"
        by simp
      from Cons.IH [OF this, of cl'] Pair Inr show ?thesis
        by (cases "run_options options cl'") simp
    qed
  qed
qed

text \<open>None of the options of the package fails with \<^verbatim>\<open>ErrNoCred\<close>.\<close>

lemma options_not_ErrNoCred:
  "fst (SetCredentials a k cl) \<noteq> Inl ErrNoCred"
  "fst (SetHttpClient std h cl) \<noteq> Inl ErrNoCred"
  "fst (SetUrl std rawurl cl) \<noteq> Inl ErrNoCred"
  "fst (SetErrorLog lg cl) \<noteq> Inl ErrNoCred"
  "fst (SetTraceLog lg cl) \<noteq> Inl ErrNoCred"
  by (auto simp: SetCredentials_def SetHttpClient_def SetUrl_def SetErrorLog_def
      SetTraceLog_def Let_def split: option.splits sum.splits)

lemma sample_Parse_values:
  "sample_Parse [] = Inr \<lparr>Scheme = []\<rparr>"
  "sample_Parse ''https://aiaas.pandorabots.com'' = Inr \<lparr>Scheme = ''https''\<rparr>"
  "sample_Parse ''http://localhost:8080/api/'' = Inr \<lparr>Scheme = ''http''\<rparr>"
  "sample_Parse ''ftp://example.org'' = Inr \<lparr>Scheme = ''ftp''\<rparr>"
  "sample_Parse '':8080'' = Inl ''missing protocol scheme''"
  by (simp_all add: sample_Parse_def is_letter_def is_scheme_char_def ToLower_char_def)

text \<open>
  C6. Whatever the options (as long as none of them fails with \<^verbatim>\<open>ErrNoCred\<close> itself, and
  those of the package never do), \<^verbatim>\<open>New\<close> fails with \<^verbatim>\<open>ErrNoCred\<close> if and only if all
  options were applied and left the application identifier or the user key empty.
\<close>

theorem New_missing_credentials:
  assumes "\<forall>opt\<in>set options. \<forall>cl. fst (opt cl) \<noteq> Inl ErrNoCred"
  shows "fst (New std options) = Inl ErrNoCred \<longleftrightarrow>
         (\<exists>cl. fst (run_options options (newClient std)) = Inr cl \<and>
               (appId cl = [] \<or> userKey cl = []))"
proof (cases "run_options options (newClient std)")
  case (Pair r lg)
  show ?thesis
  proof (cases r)
    case (Inl e)
    from run_options_not_ErrNoCred [OF assms, of "newClient std"] Pair Inl
    have "e \<noteq> ErrNoCred" by simp
    with Pair Inl show ?thesis by (simp add: New_def)
  next
    case (Inr cl)
    with Pair show ?thesis by (simp add: New_def Let_def)
  qed
qed

theorem New_missing_credentials_witness:
  "fst (New sample_std [SetErrorLog (Some 0), SetCredentials ''app'' [],
                        SetUrl sample_std ''http://localhost:8080/api/'']) = Inl ErrNoCred
   \<and> fst (New sample_std [SetCredentials ''app'' ''key'']) \<noteq> Inl ErrNoCred"
proof -
  let ?bad = "[SetErrorLog (Some 0), SetCredentials ''app'' [],
               SetUrl sample_std ''http://localhost:8080/api/'']"
  let ?good = "[SetCredentials ''app'' ''key'']"
  have bad: "\<forall>opt\<in>set ?bad. \<forall>cl. fst (opt cl) \<noteq> Inl ErrNoCred"
    by (simp add: options_not_ErrNoCred)
  have good: "\<forall>opt\<in>set ?good. \<forall>cl. fst (opt cl) \<noteq> Inl ErrNoCred"
    by (simp add: options_not_ErrNoCred)
  have "\<exists>cl. fst (run_options ?bad (newClient sample_std)) = Inr cl \<and>
             (appId cl = [] \<or> userKey cl = [])"
    by (simp add: SetErrorLog_def SetCredentials_def SetUrl_def sample_std_def
        sample_Parse_values Let_def)
  then have 1: "fst (New sample_std ?bad) = Inl ErrNoCred"
    using New_missing_credentials [OF bad, of sample_std] by blast
  have "\<not> (\<exists>cl. fst (run_options ?good (newClient sample_std)) = Inr cl \<and>
                (appId cl = [] \<or> userKey cl = []))"
    by (simp add: SetCredentials_def)
  then have 2: "fst (New sample_std ?good) \<noteq> Inl ErrNoCred"
    using New_missing_credentials [OF good, of sample_std] by blast
  from 1 2 show ?thesis by blast
qed

text \<open>
  C7, as the code has it. A non-empty base URL makes \<^verbatim>\<open>SetUrl\<close>, and with it \<^verbatim>\<open>New\<close>,
  fail when it does not parse (with the parser's error) and when it parses with a scheme
  other than http and https (with the message \<^verbatim>\<open>Invalid schema specified\<close>); otherwise
  the option succeeds and stores the URL as given. The empty string is not parsed: it
  stands for \<^verbatim>\<open>DefaultURL\<close>.
\<close>

theorem SetUrl_invalid_url:
  assumes "rawurl \<noteq> []"
  shows "(\<forall>e. url_Parse std rawurl = Inl e \<longrightarrow>
            fst (SetUrl std rawurl cl) = Inl (UrlError e)) \<and>
         (\<forall>u. url_Parse std rawurl = Inr u \<and> Scheme u \<noteq> ''http'' \<and> Scheme u \<noteq> ''https'' \<longrightarrow>
            fst (SetUrl std rawurl cl) =
              Inl (ErrorsNew (''Invalid schema specified ['' @ rawurl @ '']''))) \<and>
         (\<forall>u. url_Parse std rawurl = Inr u \<and> (Scheme u = ''http'' \<or> Scheme u = ''https'') \<longrightarrow>
            SetUrl std rawurl cl = (Inr (cl\<lparr>url := rawurl\<rparr>), [])) \<and>
         (\<forall>e pre post.
            fst (run_options pre (newClient std)) = Inr cl \<and>
            fst (SetUrl std rawurl cl) = Inl e \<longrightarrow>
            fst (New std (pre @ SetUrl std rawurl # post)) = Inl e) \<and>
         SetUrl std [] cl = SetUrl std DefaultURL cl"
proof -
  have new: "fst (New std (pre @ SetUrl std rawurl # post)) = Inl e"
    if "fst (run_options pre (newClient std)) = Inr cl"
      and "fst (SetUrl std rawurl cl) = Inl e" for e pre post
    using that
    by (cases "run_options pre (newClient std)"; cases "SetUrl std rawurl cl")
       (simp add: New_def run_options_append)
  show ?thesis
    using assms new
    by (auto simp: SetUrl_def Let_def DefaultURL_def split: sum.splits)
qed

theorem SetUrl_invalid_url_witness:
  "fst (New sample_std [SetCredentials ''app'' ''key'', SetUrl sample_std ''ftp://example.org''])
     = Inl (ErrorsNew ''Invalid schema specified [ftp://example.org]'')
   \<and> fst (New sample_std [SetCredentials ''app'' ''key'', SetUrl sample_std '':8080''])
     = Inl (UrlError ''missing protocol scheme'')
   \<and> SetUrl sample_std ''http://localhost:8080/api/'' (sample_client (sample_transport 200 []))
     = (Inr ((sample_client (sample_transport 200 []))\<lparr>url := ''http://localhost:8080/api/''\<rparr>), [])"
proof -
  let ?cl = "(newClient sample_std)\<lparr>appId := ''app'', userKey := ''key''\<rparr>"
  have pre: "fst (run_options [SetCredentials ''app'' ''key''] (newClient sample_std)) = Inr ?cl"
    by (simp add: SetCredentials_def)
  have p1: "url_Parse sample_std ''ftp://example.org'' = Inr \<lparr>Scheme = ''ftp''\<rparr>"
    and p2: "url_Parse sample_std '':8080'' = Inl ''missing protocol scheme''"
    and p3: "url_Parse sample_std ''http://localhost:8080/api/'' = Inr \<lparr>Scheme = ''http''\<rparr>"
    by (simp_all add: sample_std_def sample_Parse_values)
  have n1: "''ftp://example.org'' \<noteq> []" and n2: "'':8080'' \<noteq> []"
    and n3: "''http://localhost:8080/api/'' \<noteq> []"
    by simp_all
  note t1 = SetUrl_invalid_url [OF n1, of sample_std ?cl]
  note t2 = SetUrl_invalid_url [OF n2, of sample_std ?cl]
  note t3 = SetUrl_invalid_url [OF n3, of sample_std "sample_client (sample_transport 200 [])"]
  from t1 p1 have f1: "fst (SetUrl sample_std ''ftp://example.org'' ?cl) =
      Inl (ErrorsNew ''Invalid schema specified [ftp://example.org]'')"
    by simp
  from t2 p2 have f2: "fst (SetUrl sample_std '':8080'' ?cl) = Inl (UrlError ''missing protocol scheme'')"
    by simp
  from t1 pre f1 have "fst (New sample_std ([SetCredentials ''app'' ''key''] @
      SetUrl sample_std ''ftp://example.org'' # [])) =
      Inl (ErrorsNew ''Invalid schema specified [ftp://example.org]'')"
    by blast
  moreover from t2 pre f2 have "fst (New sample_std ([SetCredentials ''app'' ''key''] @
      SetUrl sample_std '':8080'' # [])) = Inl (UrlError ''missing protocol scheme'')"
    by blast
  moreover from t3 p3 have "SetUrl sample_std ''http://localhost:8080/api/'' (sample_client (sample_transport 200 []))
     = (Inr ((sample_client (sample_transport 200 []))\<lparr>url := ''http://localhost:8080/api/''\<rparr>), [])"
    by simp
  ultimately show ?thesis by simp
qed

text \<open>
  The claim C7 as stated fails on the empty string: it parses, its scheme (empty) is
  neither http nor https, and yet construction succeeds, with the default URL.
\<close>

theorem SetUrl_empty_counterexample:
  "url_Parse sample_std [] = Inr \<lparr>Scheme = []\<rparr> \<and>
   map_sum id url (fst (New sample_std [SetCredentials ''app'' ''key'', SetUrl sample_std []]))
     = Inr ''https://aiaas.pandorabots.com''"
  by (simp add: New_def SetCredentials_def SetUrl_def newClient_def sample_std_def
      sample_Parse_values DefaultURL_def HasSuffix_def Let_def)

text \<open>
  C8. A valid base URL that ends in a slash is stored by \<^verbatim>\<open>SetUrl\<close> as it is, and \<^verbatim>\<open>New\<close>
  removes exactly its last character, the slash: if the options leave the URL \<open>u/\<close>
  in a client with credentials, the client that \<^verbatim>\<open>New\<close> returns has the URL \<open>u\<close> and is
  otherwise the same. When \<open>u\<close> itself ends in slashes, they stay.
\<close>

theorem New_strips_one_slash:
  "(\<forall>pu. url_Parse std (u @ ''/'') = Inr pu \<and> (Scheme pu = ''http'' \<or> Scheme pu = ''https'') \<longrightarrow>
      fst (SetUrl std (u @ ''/'') cl0) = Inr (cl0\<lparr>url := u @ ''/''\<rparr>)) \<and>
   (\<forall>cl. fst (run_options options (newClient std)) = Inr cl \<and> appId cl \<noteq> [] \<and>
      userKey cl \<noteq> [] \<and> url cl = u @ ''/'' \<longrightarrow>
      fst (New std options) = Inr (cl\<lparr>url := u\<rparr>))"
  by (auto simp: SetUrl_def New_def HasSuffix_def Let_def split: prod.splits sum.splits)

theorem New_strips_one_slash_witness:
  "map_sum id url (fst (New sample_std [SetCredentials ''app'' ''key'',
       SetUrl sample_std ''http://localhost:8080/api/''])) = Inr ''http://localhost:8080/api''
   \<and> map_sum id url (fst (New sample_std [SetCredentials ''app'' ''key'',
       SetUrl sample_std ''http://localhost:8080/api//''])) = Inr ''http://localhost:8080/api/''"
proof -
  let ?o1 = "[SetCredentials ''app'' ''key'', SetUrl sample_std (''http://localhost:8080/api'' @ ''/'')]"
  let ?o2 = "[SetCredentials ''app'' ''key'', SetUrl sample_std (''http://localhost:8080/api/'' @ ''/'')]"
  let ?cl = "(newClient sample_std)\<lparr>appId := ''app'', userKey := ''key''\<rparr>"
  have p: "url_Parse sample_std ''http://localhost:8080/api/'' = Inr \<lparr>Scheme = ''http''\<rparr>"
    "url_Parse sample_std ''http://localhost:8080/api//'' = Inr \<lparr>Scheme = ''http''\<rparr>"
    by (simp_all add: sample_std_def sample_Parse_def is_letter_def is_scheme_char_def
        ToLower_char_def)
  have r1: "fst (run_options ?o1 (newClient sample_std)) = Inr (?cl\<lparr>url := ''http://localhost:8080/api'' @ ''/''\<rparr>)"
    using p by (simp add: SetCredentials_def SetUrl_def Let_def)
  have r2: "fst (run_options ?o2 (newClient sample_std)) = Inr (?cl\<lparr>url := ''http://localhost:8080/api/'' @ ''/''\<rparr>)"
    using p by (simp add: SetCredentials_def SetUrl_def Let_def)
  have "fst (New sample_std ?o1) = Inr ((?cl\<lparr>url := ''http://localhost:8080/api'' @ ''/''\<rparr>)\<lparr>url := ''http://localhost:8080/api''\<rparr>)"
    using New_strips_one_slash [of sample_std "''http://localhost:8080/api''" ?cl ?o1] r1
    by (simp add: newClient_def)
  moreover have "fst (New sample_std ?o2) = Inr ((?cl\<lparr>url := ''http://localhost:8080/api/'' @ ''/''\<rparr>)\<lparr>url := ''http://localhost:8080/api/''\<rparr>)"
    using New_strips_one_slash [of sample_std "''http://localhost:8080/api/''" ?cl ?o2] r2
    by (simp add: newClient_def)
  ultimately show ?thesis by simp
qed

section \<open>File URLs\<close>

lemma Ext_scan_suffix:
  "\<exists>stem. rev before @ seen = stem @ Ext_scan sep before seen"
proof (induction before arbitrary: seen)
  case Nil
  show ?case by simp
next
  case (Cons ch before)
  from Cons.IH [of "ch # seen"] show ?case by auto
qed

lemma Ext_suffix: "\<exists>stem. filename = stem @ Ext std filename"
  using Ext_scan_suffix [of "rev filename" "[]" "os_IsPathSeparator std"]
  by (simp add: Ext_def)

lemma fileToUrl_unsupported:
  assumes "Ext std filename \<notin>
    {''.aiml'', ''.set'', ''.map'', ''.substitution'', ''.properties'', ''.pdefaults''}"
  shows "fileToUrl std cl name filename =
    Inl (ErrorsNew (''Extension is not recognized ['' @ Ext std filename @ '']''))"
  using assms by (simp add: fileToUrl_def Let_def)

text \<open>
  C2. \<^verbatim>\<open>fileToUrl\<close> by extension: the bot URL followed by \<^verbatim>\<open>/file/\<close> and the filename for
  \<^verbatim>\<open>.aiml\<close>; by the kind and the filename without its extension for \<^verbatim>\<open>.set\<close>, \<^verbatim>\<open>.map\<close>,
  \<^verbatim>\<open>.substitution\<close>; by the kind alone for \<^verbatim>\<open>.properties\<close> and \<^verbatim>\<open>.pdefaults\<close>. With any
  other extension \<^verbatim>\<open>fileToUrl\<close> fails, and \<^verbatim>\<open>UploadFile\<close>, \<^verbatim>\<open>DeleteFile\<close> and \<^verbatim>\<open>GetFile\<close>
  return that error without issuing a request. The extension is a suffix of the
  filename, so the filename without it is well defined.
\<close>

theorem fileToUrl_by_extension:
  "(Ext std filename = ''.aiml'' \<longrightarrow>
      fileToUrl std cl name filename = Inr (botUrl cl bot name @ ''/file/'' @ filename)) \<and>
   (\<forall>kind\<in>{''set'', ''map'', ''substitution''}. \<forall>stem.
      Ext std filename = ''.'' @ kind \<and> filename = stem @ ''.'' @ kind \<longrightarrow>
      fileToUrl std cl name filename = Inr (botUrl cl bot name @ ''/'' @ kind @ ''/'' @ stem)) \<and>
   (\<forall>kind\<in>{''properties'', ''pdefaults''}.
      Ext std filename = ''.'' @ kind \<longrightarrow>
      fileToUrl std cl name filename = Inr (botUrl cl bot name @ ''/'' @ kind)) \<and>
   (Ext std filename \<notin>
      {''.aiml'', ''.set'', ''.map'', ''.substitution'', ''.properties'', ''.pdefaults''} \<longrightarrow>
      fileToUrl std cl name filename =
        Inl (ErrorsNew (''Extension is not recognized ['' @ Ext std filename @ '']'')) \<and>
      err (UploadFile std cl name filename data) = Some
        (ErrorsNew (''Extension is not recognized ['' @ Ext std filename @ '']'')) \<and>
      issued (UploadFile std cl name filename data) = [] \<and>
      err (DeleteFile std cl name filename) = Some
        (ErrorsNew (''Extension is not recognized ['' @ Ext std filename @ '']'')) \<and>
      issued (DeleteFile std cl name filename) = [] \<and>
      err (snd (GetFile std cl name filename out)) = Some
        (ErrorsNew (''Extension is not recognized ['' @ Ext std filename @ '']'')) \<and>
      issued (snd (GetFile std cl name filename out)) = [] \<and>
      fst (GetFile std cl name filename out) = out) \<and>
   (\<exists>stem. filename = stem @ Ext std filename)"
proof -
  have aiml: "fileToUrl std cl name filename = Inr (botUrl cl bot name @ ''/file/'' @ filename)"
    if "Ext std filename = ''.aiml''"
    using that by (simp add: fileToUrl_def Let_def)
  have kinds: "fileToUrl std cl name filename = Inr (botUrl cl bot name @ ''/'' @ kind @ ''/'' @ stem)"
    if "kind \<in> {''set'', ''map'', ''substitution''}" "Ext std filename = ''.'' @ kind"
      "filename = stem @ ''.'' @ kind" for kind stem
  proof -
    from that(2,3) have "take (length filename - length (Ext std filename)) filename = stem"
      by simp
    with that(1,2) show ?thesis
      by (auto simp: fileToUrl_def Let_def)
  qed
  have single: "fileToUrl std cl name filename = Inr (botUrl cl bot name @ ''/'' @ kind)"
    if "kind \<in> {''properties'', ''pdefaults''}" "Ext std filename = ''.'' @ kind" for kind
    using that by (auto simp: fileToUrl_def Let_def)
  have other: "fileToUrl std cl name filename =
        Inl (ErrorsNew (''Extension is not recognized ['' @ Ext std filename @ '']'')) \<and>
      err (UploadFile std cl name filename data) = Some
        (ErrorsNew (''Extension is not recognized ['' @ Ext std filename @ '']'')) \<and>
      issued (UploadFile std cl name filename data) = [] \<and>
      err (DeleteFile std cl name filename) = Some
        (ErrorsNew (''Extension is not recognized ['' @ Ext std filename @ '']'')) \<and>
      issued (DeleteFile std cl name filename) = [] \<and>
      err (snd (GetFile std cl name filename out)) = Some
        (ErrorsNew (''Extension is not recognized ['' @ Ext std filename @ '']'')) \<and>
      issued (snd (GetFile std cl name filename out)) = [] \<and>
      fst (GetFile std cl name filename out) = out"
    if "Ext std filename \<notin>
      {''.aiml'', ''.set'', ''.map'', ''.substitution'', ''.properties'', ''.pdefaults''}"
    using fileToUrl_unsupported [OF that, of cl name]
    by (simp add: UploadFile_def DeleteFile_def GetFile_def failed_def)
  from aiml kinds single other Ext_suffix [of filename std] show ?thesis
    by blast
qed

lemma sample_Ext:
  "Ext sample_std ''rules.aiml'' = ''.aiml''"
  "Ext sample_std ''colors.set'' = ''.set''"
  "Ext sample_std ''bot.properties'' = ''.properties''"
  "Ext sample_std ''x.unknown'' = ''.unknown''"
  by (simp_all add: Ext_def sample_std_def)

theorem fileToUrl_by_extension_witness:
  "fileToUrl sample_std (sample_client (sample_transport 200 [])) ''bot1'' ''rules.aiml'' =
     Inr ''https://aiaas.pandorabots.com/bot/app/bot1/file/rules.aiml'' \<and>
   fileToUrl sample_std (sample_client (sample_transport 200 [])) ''bot1'' ''colors.set'' =
     Inr ''https://aiaas.pandorabots.com/bot/app/bot1/set/colors'' \<and>
   fileToUrl sample_std (sample_client (sample_transport 200 [])) ''bot1'' ''bot.properties'' =
     Inr ''https://aiaas.pandorabots.com/bot/app/bot1/properties'' \<and>
   fileToUrl sample_std (sample_client (sample_transport 200 [])) ''bot1'' ''x.unknown'' =
     Inl (ErrorsNew ''Extension is not recognized [.unknown]'') \<and>
   issued (UploadFile sample_std (sample_client (sample_transport 200 [])) ''bot1'' ''x.unknown''
             (Some ''data'')) = []"
proof -
  let ?cl = "sample_client (sample_transport 200 [])"
  note t1 = fileToUrl_by_extension [of sample_std "''rules.aiml''" ?cl "''bot1''"]
  note t2 = fileToUrl_by_extension [of sample_std "''colors.set''" ?cl "''bot1''"]
  note t3 = fileToUrl_by_extension [of sample_std "''bot.properties''" ?cl "''bot1''"]
  note t4 = fileToUrl_by_extension [of sample_std "''x.unknown''" ?cl "''bot1''"
      "Some ''data''"]
  have u: "botUrl ?cl bot ''bot1'' = ''https://aiaas.pandorabots.com/bot/app/bot1''"
    by (simp add: botUrl_def appUrl_def bot_def sample_client_def)
  from t1 have 1: "fileToUrl sample_std ?cl ''bot1'' ''rules.aiml'' =
     Inr ''https://aiaas.pandorabots.com/bot/app/bot1/file/rules.aiml''"
    by (simp add: sample_Ext u)
  from t2 have "''set'' \<in> {''set'', ''map'', ''substitution''} \<longrightarrow> (\<forall>stem.
      Ext sample_std ''colors.set'' = ''.'' @ ''set'' \<and> ''colors.set'' = stem @ ''.'' @ ''set'' \<longrightarrow>
      fileToUrl sample_std ?cl ''bot1'' ''colors.set'' =
        Inr (botUrl ?cl bot ''bot1'' @ ''/'' @ ''set'' @ ''/'' @ stem))"
    by blast
  then have 2: "fileToUrl sample_std ?cl ''bot1'' ''colors.set'' =
     Inr ''https://aiaas.pandorabots.com/bot/app/bot1/set/colors''"
    using sample_Ext(2) u by (simp add: append_eq_Cons_conv)
  from t3 have "''properties'' \<in> {''properties'', ''pdefaults''} \<longrightarrow>
      Ext sample_std ''bot.properties'' = ''.'' @ ''properties'' \<longrightarrow>
      fileToUrl sample_std ?cl ''bot1'' ''bot.properties'' =
        Inr (botUrl ?cl bot ''bot1'' @ ''/'' @ ''properties'')"
    by blast
  then have 3: "fileToUrl sample_std ?cl ''bot1'' ''bot.properties'' =
     Inr ''https://aiaas.pandorabots.com/bot/app/bot1/properties''"
    using sample_Ext(3) u by simp
  from t4 have 4: "fileToUrl sample_std ?cl ''bot1'' ''x.unknown'' =
     Inl (ErrorsNew ''Extension is not recognized [.unknown]'') \<and>
     issued (UploadFile sample_std ?cl ''bot1'' ''x.unknown'' (Some ''data'')) = []"
    by (simp add: sample_Ext)
  from 1 2 3 4 show ?thesis by simp
qed

section \<open>Request execution\<close>

text \<open>The query that \<^verbatim>\<open>do\<close> sends: the user key, then the parameters of the operation.\<close>

lemma add_params_user_key:
  "add_params ps (Values_Set Map.empty ''user_key'' key) k =
     (if k = ''user_key'' then Some (key # (case ps k of None \<Rightarrow> [] | Some v \<Rightarrow> [v]))
      else map_option (\<lambda>v. [v]) (ps k))"
  by (simp add: add_params_def Values_Set_def Values_Add_def split: option.splits)

lemma do_issued:
  "issued (snd (do std cl m u ps b r)) =
     (case http_NewRequest std m
             (u @ ''?'' @
              Values_Encode (add_params ps (Values_Set Map.empty ''user_key'' (userKey cl)))) of
        Some e \<Rightarrow> []
      | None \<Rightarrow> [\<lparr>Method = m,
                  ReqURL = u @ ''?'' @
                    Values_Encode (add_params ps (Values_Set Map.empty ''user_key'' (userKey cl))),
                  ReqBody = b\<rparr>])"
  by (simp add: do_def Let_def split: option.splits sum.splits prod.splits Result.splits)

lemma do_issued_url:
  assumes "req \<in> set (issued (snd (do std cl m u ps b r)))"
  shows "ReqURL req =
    u @ ''?'' @ Values_Encode (add_params ps (Values_Set Map.empty ''user_key'' (userKey cl)))"
  using assms by (auto simp: do_issued split: option.splits)

lemma handleError_ok:
  assumes "200 \<le> StatusCode resp" "StatusCode resp < 300"
  shows "handleError std cl resp = (None, [], resp, None)"
  using assms by (simp add: handleError_def)

lemma handleError_bad:
  assumes "StatusCode resp < 200 \<or> 300 \<le> StatusCode resp"
  shows "\<exists>lg resp1 old1. handleError std cl resp =
     (Some (ErrorsNew (''Unexpected status code: '' @ Itoa (StatusCode resp) @ '' ('' @
        http_StatusText std (StatusCode resp) @ '')'')), lg, resp1, old1) \<and>
     (\<exists>b. deferred_Close resp1 old1 = Some b \<and> closed b \<and>
          (\<exists>k. unread b = drop k (unread (Body resp))) \<and>
          (errorlog cl \<noteq> None \<longrightarrow> unread b = []))"
proof (cases "errorlog cl")
  case None
  with assms show ?thesis
    by (auto simp: handleError_def Let_def deferred_Close_def intro: exI [of _ 0])
next
  case (Some lg)
  with assms show ?thesis
    by (auto simp: handleError_def Let_def deferred_Close_def DumpResponse_def)
qed

text \<open>What \<^verbatim>\<open>do\<close> does once the transport has answered with a status outside 200..299.\<close>

lemma do_bad_status:
  assumes req: "req \<in> set (issued (snd (do std cl m u ps b r)))"
    and resp: "c cl req = Inr resp"
    and bad: "StatusCode resp < 200 \<or> 300 \<le> StatusCode resp"
  shows "fst (do std cl m u ps b r) = r"
    and "err (snd (do std cl m u ps b r)) =
      Some (ErrorsNew (''Unexpected status code: '' @ Itoa (StatusCode resp) @ '' ('' @
        http_StatusText std (StatusCode resp) @ '')''))"
    and "decoding (snd (do std cl m u ps b r)) = NotAttempted"
    and "\<exists>bd. final_body (snd (do std cl m u ps b r)) = Some bd \<and> closed bd \<and>
          (\<exists>k. unread bd = drop k (unread (Body resp))) \<and>
          (errorlog cl \<noteq> None \<longrightarrow> unread bd = [])"
proof -
  let ?target = "u @ ''?'' @
    Values_Encode (add_params ps (Values_Set Map.empty ''user_key'' (userKey cl)))"
  let ?req = "\<lparr>Method = m, ReqURL = ?target, ReqBody = b\<rparr>"
  from req have nr: "http_NewRequest std m ?target = None" and eq: "req = ?req"
    by (auto simp: do_issued split: option.splits)
  from resp eq have tr: "c cl ?req = Inr resp" by simp
  from handleError_bad [OF bad, of std cl] obtain lg resp1 old1 bd where
    he: "handleError std cl resp =
     (Some (ErrorsNew (''Unexpected status code: '' @ Itoa (StatusCode resp) @ '' ('' @
        http_StatusText std (StatusCode resp) @ '')'')), lg, resp1, old1)"
    and bd: "deferred_Close resp1 old1 = Some bd" "closed bd"
      "\<exists>k. unread bd = drop k (unread (Body resp))" "errorlog cl \<noteq> None \<longrightarrow> unread bd = []"
    by blast
  from nr tr he show "fst (do std cl m u ps b r) = r"
    by (simp add: do_def Let_def)
  from nr tr he show "err (snd (do std cl m u ps b r)) =
      Some (ErrorsNew (''Unexpected status code: '' @ Itoa (StatusCode resp) @ '' ('' @
        http_StatusText std (StatusCode resp) @ '')''))"
    by (simp add: do_def Let_def)
  from nr tr he show "decoding (snd (do std cl m u ps b r)) = NotAttempted"
    by (simp add: do_def Let_def)
  from nr tr he bd show "\<exists>bd. final_body (snd (do std cl m u ps b r)) = Some bd \<and> closed bd \<and>
          (\<exists>k. unread bd = drop k (unread (Body resp))) \<and>
          (errorlog cl \<noteq> None \<longrightarrow> unread bd = [])"
    by (simp add: do_def Let_def)
qed

lemma dumpResponse_cases:
  "dumpResponse std cl resp =
     (case tracelog cl of
        None \<Rightarrow> ([], resp, None)
      | Some lg \<Rightarrow>
          ([(lg, ''%s'' @ [CHR 0x0A], [DumpResponseText std (StatusCode resp) (unread (Body resp))])],
           resp\<lparr>Body := \<lparr>unread = unread (Body resp), closed = False\<rparr>\<rparr>,
           Some ((Body resp)\<lparr>unread := [], closed := True\<rparr>)))"
  by (simp add: dumpResponse_def DumpResponse_def tracef_def Let_def split: option.splits)

text \<open>
  What \<^verbatim>\<open>do\<close> does once the transport has answered with a status in 200..299: the body
  that the copy or the decoder reads holds the bytes of the response, behind a trace dump
  or not.
\<close>

lemma do_good_status:
  assumes req: "req \<in> set (issued (snd (do std cl m u ps b r)))"
    and resp: "c cl req = Inr resp"
    and good: "200 \<le> StatusCode resp" "StatusCode resp < 300"
  shows "do std cl m u ps b r =
     (case dumpResponse std cl resp of
        (lg2, resp2, old) \<Rightarrow>
          (case r of
             NilResult \<Rightarrow>
               (r, \<lparr>err = None, issued = [req], final_body = deferred_Close resp2 old,
                    logged = dumpRequest std cl req @ lg2, decoding = NotAttempted\<rparr>)
           | Writer w \<Rightarrow>
               (case io_Copy (copy_chunk std) w (Body resp2) of
                  (e, w', b') \<Rightarrow>
                    (Writer w',
                     \<lparr>err = map_option CopyError e, issued = [req],
                      final_body = deferred_Close (resp2\<lparr>Body := b'\<rparr>) old,
                      logged = dumpRequest std cl req @ lg2, decoding = RawCopy\<rparr>))
           | Ptr dec v \<Rightarrow>
               (case dec (unread (Body resp2)) v of
                  (e, v', n) \<Rightarrow>
                    (Ptr dec v',
                     \<lparr>err = map_option DecodeError e, issued = [req],
                      final_body =
                        deferred_Close
                          (resp2\<lparr>Body := (Body resp2)
                             \<lparr>unread := drop n (unread (Body resp2))\<rparr>\<rparr>) old,
                      logged = dumpRequest std cl req @ lg2, decoding = JsonDecode\<rparr>))))"
proof -
  let ?target = "u @ ''?'' @
    Values_Encode (add_params ps (Values_Set Map.empty ''user_key'' (userKey cl)))"
  let ?req = "\<lparr>Method = m, ReqURL = ?target, ReqBody = b\<rparr>"
  from req have nr: "http_NewRequest std m ?target = None" and eq: "req = ?req"
    by (auto simp: do_issued split: option.splits)
  from resp eq have tr: "c cl ?req = Inr resp" by simp
  from nr tr handleError_ok [OF good, of std cl] eq show ?thesis
    by (simp add: do_def Let_def split: prod.splits Result.splits)
qed

lemma do_good_status_err:
  assumes req: "req \<in> set (issued (snd (do std cl m u ps b r)))"
    and resp: "c cl req = Inr resp"
    and good: "200 \<le> StatusCode resp" "StatusCode resp < 300"
  shows "err (snd (do std cl m u ps b r)) \<noteq> Some (ErrorsNew msg)"
  unfolding do_good_status [OF assms]
  by (auto split: prod.splits Result.splits)

lemma io_Copy_body:
  "closed (snd (snd (io_Copy n w bd))) = closed bd"
  "\<exists>k. unread (snd (snd (io_Copy n w bd))) = drop k (unread bd)"
  by (auto simp: io_Copy_def split: option.splits intro: exI [of _ 0])

lemma do_good_status_body:
  assumes req: "req \<in> set (issued (snd (do std cl m u ps b r)))"
    and resp: "c cl req = Inr resp"
    and good: "200 \<le> StatusCode resp" "StatusCode resp < 300"
  shows "\<exists>bd. final_body (snd (do std cl m u ps b r)) = Some bd \<and> closed bd \<and>
          (\<exists>k. unread bd = drop k (unread (Body resp))) \<and>
          (tracelog cl \<noteq> None \<longrightarrow> unread bd = [])"
proof (cases "tracelog cl")
  case None
  show ?thesis
  proof (cases r)
    case NilResult
    have "\<exists>k. unread (Body resp) = drop k (unread (Body resp))"
      by (rule exI [of _ 0]) simp
    with None NilResult show ?thesis
      unfolding do_good_status [OF assms]
      by (simp add: dumpResponse_cases deferred_Close_def)
  next
    case (Writer w)
    obtain e w' b' where cp: "io_Copy (copy_chunk std) w (Body resp) = (e, w', b')"
      by (cases "io_Copy (copy_chunk std) w (Body resp)") auto
    with io_Copy_body [of "copy_chunk std" w "Body resp"]
    have "\<exists>k. unread b' = drop k (unread (Body resp))"
      by simp
    with None Writer cp show ?thesis
      unfolding do_good_status [OF assms]
      by (simp add: dumpResponse_cases deferred_Close_def)
  next
    case (Ptr dec v)
    obtain e v' n where dc: "dec (unread (Body resp)) v = (e, v', n)"
      by (cases "dec (unread (Body resp)) v") auto
    have "\<exists>k. drop n (unread (Body resp)) = drop k (unread (Body resp))"
      by (rule exI [of _ n]) simp
    with None Ptr dc show ?thesis
      unfolding do_good_status [OF assms]
      by (simp add: dumpResponse_cases deferred_Close_def)
  qed
next
  case (Some lg)
  have "\<exists>k. [] = drop k (unread (Body resp))"
    by (rule exI [of _ "length (unread (Body resp))"]) simp
  with Some show ?thesis
    unfolding do_good_status [OF assms]
    by (simp add: dumpResponse_cases deferred_Close_def split: prod.splits Result.splits)
qed

text \<open>
  Every operation either fails before any request (a file operation with an unsupported
  extension) or is one call of \<^verbatim>\<open>do\<close> with the parameters \<open>op_params\<close>: a property
  of the effects of all such calls is a property of the operation.
\<close>

lemma perform_via_do:
  assumes "\<And>m u b (r :: BotEntry list Result). P (snd (do std cl m u (op_params op) b r))"
    and "\<And>m u b (r :: BotFiles Result). P (snd (do std cl m u (op_params op) b r))"
    and "\<And>m u b (r :: Reply Result). P (snd (do std cl m u (op_params op) b r))"
    and "\<And>m u b (r :: unit Result). P (snd (do std cl m u (op_params op) b r))"
    and "\<And>e. P (failed e)"
  shows "P (perform std cl op)"
proof (cases op)
  case OpList
  with assms(1) show ?thesis by (simp add: List_def case_prod_beta)
next
  case (OpCreateBot name)
  with assms(4) show ?thesis by (simp add: CreateBot_def)
next
  case (OpDeleteBot name)
  with assms(4) show ?thesis by (simp add: DeleteBot_def)
next
  case (OpListFiles name)
  with assms(2) show ?thesis by (simp add: ListFiles_def case_prod_beta)
next
  case (OpDownloadFiles name zipw)
  with assms(4) show ?thesis by (simp add: DownloadFiles_def case_prod_beta)
next
  case (OpUploadFile name filename data)
  with assms(4,5) show ?thesis by (simp add: UploadFile_def split: sum.splits)
next
  case (OpDeleteFile name filename)
  with assms(4,5) show ?thesis by (simp add: DeleteFile_def split: sum.splits)
next
  case (OpGetFile name filename out)
  with assms(4,5) show ?thesis by (simp add: GetFile_def case_prod_beta split: sum.splits)
next
  case (OpVerify name)
  with assms(4) show ?thesis by (simp add: Verify_def)
next
  case (OpTalk name input clientName sessionId recent)
  with assms(3) show ?thesis by (simp add: Talk_def TalkDebug_def case_prod_beta)
next
  case (OpTalkDebug name input clientName sessionId recent that topic extra reset trace reload)
  with assms(3) show ?thesis by (simp add: TalkDebug_def case_prod_beta)
qed

section \<open>Status classification\<close>

lemma do_status:
  "\<forall>req\<in>set (issued (snd (do std cl m u ps b r))). \<forall>resp. c cl req = Inr resp \<longrightarrow>
      (if StatusCode resp < 200 \<or> 300 \<le> StatusCode resp
       then err (snd (do std cl m u ps b r)) =
              Some (ErrorsNew (''Unexpected status code: '' @ Itoa (StatusCode resp) @ '' ('' @
                http_StatusText std (StatusCode resp) @ '')'')) \<and>
            decoding (snd (do std cl m u ps b r)) = NotAttempted
       else (\<forall>msg. err (snd (do std cl m u ps b r)) \<noteq> Some (ErrorsNew msg)))"
proof (intro ballI allI impI)
  fix req resp
  assume req: "req \<in> set (issued (snd (do std cl m u ps b r)))" and resp: "c cl req = Inr resp"
  show "if StatusCode resp < 200 \<or> 300 \<le> StatusCode resp
     then err (snd (do std cl m u ps b r)) =
            Some (ErrorsNew (''Unexpected status code: '' @ Itoa (StatusCode resp) @ '' ('' @
              http_StatusText std (StatusCode resp) @ '')'')) \<and>
          decoding (snd (do std cl m u ps b r)) = NotAttempted
     else (\<forall>msg. err (snd (do std cl m u ps b r)) \<noteq> Some (ErrorsNew msg))"
  proof (cases "StatusCode resp < 200 \<or> 300 \<le> StatusCode resp")
    case True
    with do_bad_status(2,3) [OF req resp True] show ?thesis by simp
  next
    case False
    then have "200 \<le> StatusCode resp" "StatusCode resp < 300" by simp_all
    from do_good_status_err [OF req resp this] False show ?thesis by simp
  qed
qed

text \<open>
  C1. Whenever an operation has handed a request to the transport and the transport has
  answered: a status outside 200..299 makes the operation return the error
  \<^verbatim>\<open>Unexpected status code: <code> (<status text>)\<close> without attempting a raw copy or a
  JSON decode, and \<^verbatim>\<open>do\<close> hands the result destination back untouched; a status in
  200..299 never gives an error of that kind.
\<close>

theorem unexpected_status:
  "(\<forall>req\<in>set (issued (perform std cl op)). \<forall>resp. c cl req = Inr resp \<longrightarrow>
      (if StatusCode resp < 200 \<or> 300 \<le> StatusCode resp
       then err (perform std cl op) =
              Some (ErrorsNew (''Unexpected status code: '' @ Itoa (StatusCode resp) @ '' ('' @
                http_StatusText std (StatusCode resp) @ '')'')) \<and>
            decoding (perform std cl op) = NotAttempted
       else (\<forall>msg. err (perform std cl op) \<noteq> Some (ErrorsNew msg)))) \<and>
   (\<forall>req\<in>set (issued (snd (do std cl m u ps b r))). \<forall>resp.
      c cl req = Inr resp \<and> (StatusCode resp < 200 \<or> 300 \<le> StatusCode resp) \<longrightarrow>
      fst (do std cl m u ps b r) = r)"
proof -
  let ?P = "\<lambda>eff. \<forall>req\<in>set (issued eff). \<forall>resp. c cl req = Inr resp \<longrightarrow>
      (if StatusCode resp < 200 \<or> 300 \<le> StatusCode resp
       then err eff =
              Some (ErrorsNew (''Unexpected status code: '' @ Itoa (StatusCode resp) @ '' ('' @
                http_StatusText std (StatusCode resp) @ '')'')) \<and>
            decoding eff = NotAttempted
       else (\<forall>msg. err eff \<noteq> Some (ErrorsNew msg)))"
  have "?P (failed e)" for e
    by (simp add: failed_def)
  then have "?P (perform std cl op)"
    by (rule perform_via_do [where P = ?P, OF do_status do_status do_status do_status])
  moreover have "\<forall>req\<in>set (issued (snd (do std cl m u ps b r))). \<forall>resp.
      c cl req = Inr resp \<and> (StatusCode resp < 200 \<or> 300 \<le> StatusCode resp) \<longrightarrow>
      fst (do std cl m u ps b r) = r"
    using do_bad_status(1) by blast
  ultimately show ?thesis by blast
qed

lemma sample_issued:
  "issued (snd (do sample_std cl m u ps b r)) =
     [\<lparr>Method = m,
       ReqURL = u @ ''?'' @
         Values_Encode (add_params ps (Values_Set Map.empty ''user_key'' (userKey cl))),
       ReqBody = b\<rparr>]"
  by (simp add: do_issued sample_std_def)

lemma sample_transport_answer:
  "c (sample_client (sample_transport code bs)) req =
     Inr \<lparr>StatusCode = code, Body = \<lparr>unread = bs, closed = False\<rparr>\<rparr>"
  by (simp add: sample_client_def sample_transport_def)

theorem unexpected_status_witness:
  "err (perform sample_std (sample_client (sample_transport 404 ''gone'')) (OpListFiles ''bot1''))
     = Some (ErrorsNew ''Unexpected status code: 404 (Not Found)'') \<and>
   decoding (perform sample_std (sample_client (sample_transport 404 ''gone'')) (OpListFiles ''bot1''))
     = NotAttempted \<and>
   fst (do sample_std (sample_client (sample_transport 404 ''gone'')) ''GET'' ''u'' Map.empty None
          (Writer \<lparr>written = [], write_err = None\<rparr> :: unit Result))
     = Writer \<lparr>written = [], write_err = None\<rparr>"
proof -
  let ?cl = "sample_client (sample_transport 404 ''gone'')"
  let ?resp = "\<lparr>StatusCode = 404, Body = \<lparr>unread = ''gone'', closed = False\<rparr>\<rparr>"
  let ?w = "Writer \<lparr>written = [], write_err = None\<rparr> :: unit Result"
  note t = unexpected_status [of sample_std ?cl "OpListFiles ''bot1''" "''GET''" "''u''"
      Map.empty None ?w]
  have i1: "\<exists>req. req \<in> set (issued (perform sample_std ?cl (OpListFiles ''bot1'')))"
    by (simp add: ListFiles_def case_prod_beta sample_issued)
  have i2: "\<exists>req. req \<in> set (issued (snd (do sample_std ?cl ''GET'' ''u'' Map.empty None ?w)))"
    by (simp add: sample_issued)
  have code: "Itoa 404 = ''404''"
    by code_simp
  have phrase: "http_StatusText sample_std 404 = ''Not Found''"
    by (simp add: sample_std_def sample_StatusText_def)
  have bad: "StatusCode ?resp < 200 \<or> 300 \<le> StatusCode ?resp"
    by simp
  from i1 obtain req1 where r1: "req1 \<in> set (issued (perform sample_std ?cl (OpListFiles ''bot1'')))"
    by blast
  from i2 obtain req2 where
    r2: "req2 \<in> set (issued (snd (do sample_std ?cl ''GET'' ''u'' Map.empty None ?w)))"
    by blast
  from t r1 sample_transport_answer [of 404 "''gone''" req1] have
    "if StatusCode ?resp < 200 \<or> 300 \<le> StatusCode ?resp
     then err (perform sample_std ?cl (OpListFiles ''bot1'')) =
       Some (ErrorsNew (''Unexpected status code: '' @ Itoa (StatusCode ?resp) @ '' ('' @
                http_StatusText sample_std (StatusCode ?resp) @ '')'')) \<and>
       decoding (perform sample_std ?cl (OpListFiles ''bot1'')) = NotAttempted
     else (\<forall>msg. err (perform sample_std ?cl (OpListFiles ''bot1'')) \<noteq> Some (ErrorsNew msg))"
    by blast
  then have "err (perform sample_std ?cl (OpListFiles ''bot1'')) =
       Some (ErrorsNew ''Unexpected status code: 404 (Not Found)'') \<and>
       decoding (perform sample_std ?cl (OpListFiles ''bot1'')) = NotAttempted"
    by (simp add: code phrase)
  moreover from t r2 sample_transport_answer [of 404 "''gone''" req2] bad have
    "fst (do sample_std ?cl ''GET'' ''u'' Map.empty None ?w) = ?w"
    by blast
  ultimately show ?thesis
    by simp
qed

section \<open>Query parameters\<close>

lemma cond_upd_apply:
  "(if cond then p(k \<mapsto> v) else p) k' = (if cond \<and> k' = k then Some v else p k')"
  by simp

lemma TalkDebug_params_apply:
  "TalkDebug_params input clientName sessionId recent that topic extra reset trace reload k =
     (if reload \<and> k = ''reload'' then Some ''true''
      else if trace \<and> k = ''trace'' then Some ''true''
      else if reset \<and> k = ''reset'' then Some ''true''
      else if extra \<and> k = ''extra'' then Some ''true''
      else if topic \<noteq> [] \<and> k = ''topic'' then Some topic
      else if that \<noteq> [] \<and> k = ''that'' then Some that
      else if recent \<and> k = ''recent'' then Some ''true''
      else if sessionId \<noteq> 0 \<and> k = ''sessionid'' then Some (Itoa sessionId)
      else if clientName \<noteq> [] \<and> k = ''client_name'' then Some clientName
      else if k = ''input'' then Some input
      else None)"
  unfolding TalkDebug_params_def Let_def cond_upd_apply
  by simp

lemma TalkDebug_params_dom:
  "dom (TalkDebug_params input clientName sessionId recent that topic extra reset trace reload)
     \<subseteq> {''input'', ''client_name'', ''that'', ''topic'', ''sessionid'', ''recent'',
         ''extra'', ''reset'', ''trace'', ''reload''}"
proof
  fix k
  assume "k \<in> dom (TalkDebug_params input clientName sessionId recent that topic extra reset
    trace reload)"
  then have "TalkDebug_params input clientName sessionId recent that topic extra reset
    trace reload k \<noteq> None"
    by auto
  then show "k \<in> {''input'', ''client_name'', ''that'', ''topic'', ''sessionid'', ''recent'',
                 ''extra'', ''reset'', ''trace'', ''reload''}"
    unfolding TalkDebug_params_apply by (simp split: if_splits)
qed

lemma op_params_no_user_key: "op_params op ''user_key'' = None"
  by (cases op) (simp_all add: TalkDebug_params_apply)

lemma op_params_finite: "finite (dom (op_params op))"
proof (cases op)
  case (OpTalk name input clientName sessionId recent)
  then show ?thesis
    using finite_subset [OF TalkDebug_params_dom] by simp
next
  case (OpTalkDebug name input clientName sessionId recent that topic extra reset trace reload)
  then show ?thesis
    using finite_subset [OF TalkDebug_params_dom] by simp
qed simp_all

text \<open>The values that \<^verbatim>\<open>do\<close> encodes: the user key, then the parameters.\<close>

lemma request_values:
  assumes "ps ''user_key'' = None"
  shows "add_params ps (Values_Set Map.empty ''user_key'' key) ''user_key'' = Some [key]"
    and "\<forall>k v. ps k = Some v \<longrightarrow>
           add_params ps (Values_Set Map.empty ''user_key'' key) k = Some [v]"
    and "dom (add_params ps (Values_Set Map.empty ''user_key'' key)) = insert ''user_key'' (dom ps)"
proof -
  from assms show "add_params ps (Values_Set Map.empty ''user_key'' key) ''user_key'' = Some [key]"
    by (simp add: add_params_user_key)
  from assms show "\<forall>k v. ps k = Some v \<longrightarrow>
      add_params ps (Values_Set Map.empty ''user_key'' key) k = Some [v]"
    by (auto simp: add_params_user_key)
  show "dom (add_params ps (Values_Set Map.empty ''user_key'' key)) = insert ''user_key'' (dom ps)"
    by (auto simp: add_params_user_key dom_def split: if_splits)
qed

text \<open>The encoding escapes the number sign, so it never opens a fragment.\<close>

lemma upperhex_no_hash: "n < 16 \<Longrightarrow> upperhex n \<noteq> CHR ''#''"
proof -
  assume "n < 16"
  then have "upperhex n \<in> set ''0123456789ABCDEF''"
    unfolding upperhex_def by (intro nth_mem) simp
  then show ?thesis by auto
qed

lemma of_char_bound: "(of_char ch :: nat) < 256"
proof -
  have "(of_char ch :: nat) mod 256 = of_char ch"
    by (rule of_char_mod_256)
  then show ?thesis
    by (metis mod_less_divisor zero_less_numeral)
qed

lemma escape_byte_no_hash: "CHR ''#'' \<notin> set (escape_byte ch)"
proof -
  have "(of_char ch :: nat) div 16 < 16"
    using of_char_bound [of ch] by (intro less_mult_imp_div_less) simp
  moreover have "(of_char ch :: nat) mod 16 < 16"
    by simp
  ultimately show ?thesis
    using upperhex_no_hash [of "of_char ch div 16"] upperhex_no_hash [of "of_char ch mod 16"]
    by (auto simp: escape_byte_def unreserved_def)
qed

lemma QueryEscape_no_hash: "CHR ''#'' \<notin> set (QueryEscape s)"
  by (simp add: QueryEscape_def escape_byte_no_hash)

lemma join_amp_no_hash:
  "\<forall>p\<in>set ps. CHR ''#'' \<notin> set p \<Longrightarrow> CHR ''#'' \<notin> set (join_amp ps)"
  by (induction ps rule: join_amp.induct) auto

lemma Values_Encode_no_hash: "CHR ''#'' \<notin> set (Values_Encode vs)"
  unfolding Values_Encode_def
  by (rule join_amp_no_hash) (auto simp: Values_pairs_def QueryEscape_no_hash)

lemma Cut_absent:
  assumes "sep \<notin> set s"
  shows "Cut sep s = (s, [])"
proof -
  from assms have kept: "takeWhile (\<lambda>ch. ch \<noteq> sep) s = s"
    by (induction s) auto
  from assms have rest: "dropWhile (\<lambda>ch. ch \<noteq> sep) s = []"
    by (induction s) auto
  show ?thesis
    by (simp only: Cut_def kept rest drop.simps)
qed

lemma Cut_first:
  assumes "sep \<notin> set s"
  shows "Cut sep (s @ sep # t) = (s, t)"
proof -
  from assms have "\<forall>ch\<in>set s. ch \<noteq> sep"
    by auto
  then show ?thesis
    by (simp add: Cut_def)
qed

lemma RawQuery_plain:
  assumes "CHR ''?'' \<notin> set u" "CHR ''#'' \<notin> set u" "CHR ''#'' \<notin> set q"
  shows "RawQuery (u @ ''?'' @ q) = q"
proof -
  from assms(2,3) have "CHR ''#'' \<notin> set (u @ ''?'' @ q)"
    by simp
  from Cut_absent [OF this] have "fst (Cut (CHR ''#'') (u @ ''?'' @ q)) = u @ ''?'' @ q"
    by simp
  moreover from assms(1) have "Cut (CHR ''?'') (u @ ''?'' @ q) = (u, q)"
    using Cut_first [of "CHR ''?''" u q] by simp
  ultimately show ?thesis
    by (simp add: RawQuery_def)
qed

lemma Values_pairs_member:
  assumes "finite (dom vs)" "vs k = Some l" "v \<in> set l"
  shows "QueryEscape k @ ''='' @ QueryEscape v \<in> set (Values_pairs vs)"
proof -
  from assms(1,2) have "k \<in> set (sorted_list_of_set (dom vs))"
    by auto
  with assms(2,3) show ?thesis
    unfolding Values_pairs_def by (auto intro!: bexI [of _ k])
qed

text \<open>The encoding of values whose keys are listed.\<close>

lemma Values_Encode_keys:
  "dom vs = set ks \<Longrightarrow> Values_Encode vs =
     join_amp (concat (map (\<lambda>k. map (\<lambda>v. QueryEscape k @ ''='' @ QueryEscape v)
                                  (case vs k of None \<Rightarrow> [] | Some l \<Rightarrow> l))
                           (sort (remdups ks))))"
  by (simp add: Values_Encode_def Values_pairs_def sorted_list_of_set_sort_remdups)

lemma sample_encode_user_key:
  "Values_Encode (add_params Map.empty (Values_Set Map.empty ''user_key'' ''key'')) =
     ''user_key=key''"
proof -
  have "dom (add_params Map.empty (Values_Set Map.empty ''user_key'' ''key'')) = set [''user_key'']"
    by (simp add: request_values(3))
  from Values_Encode_keys [OF this] show ?thesis
    by (simp add: add_params_user_key QueryEscape_def escape_byte_def unreserved_def)
qed

text \<open>
  An operation that issues a request has got its URL, and the request is that of \<^verbatim>\<open>do\<close>
  on this URL and the parameters of the operation.
\<close>

lemma perform_via_do_url:
  assumes "\<And>m u b (r :: BotEntry list Result).
      op_url std cl op = Inr u \<Longrightarrow> P (snd (do std cl m u (op_params op) b r))"
    and "\<And>m u b (r :: BotFiles Result).
      op_url std cl op = Inr u \<Longrightarrow> P (snd (do std cl m u (op_params op) b r))"
    and "\<And>m u b (r :: Reply Result).
      op_url std cl op = Inr u \<Longrightarrow> P (snd (do std cl m u (op_params op) b r))"
    and "\<And>m u b (r :: unit Result).
      op_url std cl op = Inr u \<Longrightarrow> P (snd (do std cl m u (op_params op) b r))"
    and "\<And>e. P (failed e)"
  shows "P (perform std cl op)"
proof (cases op)
  case OpList
  with assms(1) show ?thesis by (simp add: List_def case_prod_beta)
next
  case (OpCreateBot name)
  with assms(4) show ?thesis by (simp add: CreateBot_def)
next
  case (OpDeleteBot name)
  with assms(4) show ?thesis by (simp add: DeleteBot_def)
next
  case (OpListFiles name)
  with assms(2) show ?thesis by (simp add: ListFiles_def case_prod_beta)
next
  case (OpDownloadFiles name zipw)
  with assms(4) show ?thesis by (simp add: DownloadFiles_def case_prod_beta)
next
  case (OpUploadFile name filename data)
  with assms(4,5) show ?thesis by (simp add: UploadFile_def split: sum.splits)
next
  case (OpDeleteFile name filename)
  with assms(4,5) show ?thesis by (simp add: DeleteFile_def split: sum.splits)
next
  case (OpGetFile name filename out)
  with assms(4,5) show ?thesis by (simp add: GetFile_def case_prod_beta split: sum.splits)
next
  case (OpVerify name)
  with assms(4) show ?thesis by (simp add: Verify_def)
next
  case (OpTalk name input clientName sessionId recent)
  with assms(3) show ?thesis by (simp add: Talk_def TalkDebug_def case_prod_beta)
next
  case (OpTalkDebug name input clientName sessionId recent that topic extra reset trace reload)
  with assms(3) show ?thesis by (simp add: TalkDebug_def case_prod_beta)
qed

lemma do_request_url:
  "\<forall>req\<in>set (issued (snd (do std cl m u ps b r))).
     ReqURL req =
       u @ ''?'' @ Values_Encode (add_params ps (Values_Set Map.empty ''user_key'' (userKey cl))) \<and>
     (CHR ''?'' \<notin> set u \<and> CHR ''#'' \<notin> set u \<longrightarrow>
        RawQuery (ReqURL req) =
          Values_Encode (add_params ps (Values_Set Map.empty ''user_key'' (userKey cl))))"
proof (intro ballI conjI impI)
  fix req
  assume req: "req \<in> set (issued (snd (do std cl m u ps b r)))"
  let ?q = "Values_Encode (add_params ps (Values_Set Map.empty ''user_key'' (userKey cl)))"
  from do_issued_url [OF req] show url: "ReqURL req = u @ ''?'' @ ?q" .
  assume "CHR ''?'' \<notin> set u \<and> CHR ''#'' \<notin> set u"
  then have "RawQuery (u @ ''?'' @ ?q) = ?q"
    using RawQuery_plain [of u ?q] Values_Encode_no_hash by blast
  with url show "RawQuery (ReqURL req) = ?q"
    by simp
qed

text \<open>
  C3, as the code has it. The URL of every request that an operation issues is the URL
  of the operation, a question mark, and the encoding of values that hold \<^verbatim>\<open>user_key\<close>
  with exactly one value, the user key of the client, and every parameter of the
  operation with its value, and nothing else; no operation has a parameter named
  \<^verbatim>\<open>user_key\<close>. Among the pairs of the encoding are \<^verbatim>\<open>user_key=\<close> with the escaped user
  key and each parameter. This encoding is the query string of the request when the URL
  of the operation, into which base URL, application id, bot name and file name go as
  they are, has no question mark and no number sign.
\<close>

theorem user_key_in_every_request:
  "(let V = add_params (op_params op) (Values_Set Map.empty ''user_key'' (userKey cl))
    in (\<forall>req\<in>set (issued (perform std cl op)).
          \<exists>u. op_url std cl op = Inr u \<and>
              ReqURL req = u @ ''?'' @ Values_Encode V \<and>
              (CHR ''?'' \<notin> set u \<and> CHR ''#'' \<notin> set u \<longrightarrow>
                 RawQuery (ReqURL req) = Values_Encode V)) \<and>
       V ''user_key'' = Some [userKey cl] \<and>
       (\<forall>k v. op_params op k = Some v \<longrightarrow> V k = Some [v]) \<and>
       dom V = insert ''user_key'' (dom (op_params op)) \<and>
       ''user_key='' @ QueryEscape (userKey cl) \<in> set (Values_pairs V) \<and>
       (\<forall>k v. op_params op k = Some v \<longrightarrow>
          QueryEscape k @ ''='' @ QueryEscape v \<in> set (Values_pairs V)) \<and>
       Values_Encode V = join_amp (Values_pairs V)) \<and>
   op_params op ''user_key'' = None"
proof -
  let ?V = "add_params (op_params op) (Values_Set Map.empty ''user_key'' (userKey cl))"
  let ?P = "\<lambda>eff. \<forall>req\<in>set (issued eff).
      \<exists>u. op_url std cl op = Inr u \<and>
          ReqURL req = u @ ''?'' @ Values_Encode ?V \<and>
          (CHR ''?'' \<notin> set u \<and> CHR ''#'' \<notin> set u \<longrightarrow>
             RawQuery (ReqURL req) = Values_Encode ?V)"
  note vals = request_values [of "op_params op" "userKey cl", OF op_params_no_user_key]
  have 1: "?P (perform std cl op)"
  proof (rule perform_via_do_url [where P = ?P])
    show "?P (failed e)" for e
      by (simp add: failed_def)
  next
    fix m u b and r :: "BotEntry list Result"
    assume "op_url std cl op = Inr u"
    then show "?P (snd (do std cl m u (op_params op) b r))"
      using do_request_url [of std cl m u "op_params op" b r] by blast
  next
    fix m u b and r :: "BotFiles Result"
    assume "op_url std cl op = Inr u"
    then show "?P (snd (do std cl m u (op_params op) b r))"
      using do_request_url [of std cl m u "op_params op" b r] by blast
  next
    fix m u b and r :: "Reply Result"
    assume "op_url std cl op = Inr u"
    then show "?P (snd (do std cl m u (op_params op) b r))"
      using do_request_url [of std cl m u "op_params op" b r] by blast
  next
    fix m u b and r :: "unit Result"
    assume "op_url std cl op = Inr u"
    then show "?P (snd (do std cl m u (op_params op) b r))"
      using do_request_url [of std cl m u "op_params op" b r] by blast
  qed
  have fin: "finite (dom ?V)"
    by (simp add: vals(3) op_params_finite)
  have esc: "QueryEscape ''user_key'' = ''user_key''"
    by (simp add: QueryEscape_def escape_byte_def unreserved_def)
  from Values_pairs_member [OF fin vals(1), of "userKey cl"] esc
  have 2: "''user_key='' @ QueryEscape (userKey cl) \<in> set (Values_pairs ?V)"
    by simp
  have 3: "\<forall>k v. op_params op k = Some v \<longrightarrow>
      QueryEscape k @ ''='' @ QueryEscape v \<in> set (Values_pairs ?V)"
  proof (intro allI impI)
    fix k v
    assume "op_params op k = Some v"
    with vals(2) have "?V k = Some [v]" by blast
    from Values_pairs_member [OF fin this, of v]
    show "QueryEscape k @ ''='' @ QueryEscape v \<in> set (Values_pairs ?V)"
      by simp
  qed
  from 1 2 3 vals op_params_no_user_key [of op] show ?thesis
    by (simp add: Let_def Values_Encode_def)
qed

theorem user_key_in_every_request_witness:
  "(\<exists>req. issued (perform sample_std (sample_client (sample_transport 200 ''zip''))
             (OpDownloadFiles ''bot1'' None)) = [req] \<and>
          ReqURL req = ''https://aiaas.pandorabots.com/bot/app/bot1?return=zip&user_key=key'' \<and>
          RawQuery (ReqURL req) = ''return=zip&user_key=key'')"
proof -
  let ?cl = "sample_client (sample_transport 200 ''zip'')"
  let ?op = "OpDownloadFiles ''bot1'' None"
  let ?V = "add_params (op_params ?op) (Values_Set Map.empty ''user_key'' (userKey ?cl))"
  note t = user_key_in_every_request [of ?op ?cl sample_std, unfolded Let_def]
  obtain req where req: "issued (perform sample_std ?cl ?op) = [req]"
    by (simp add: DownloadFiles_def case_prod_beta sample_issued)
  then have mem: "req \<in> set (issued (perform sample_std ?cl ?op))"
    by simp
  have u: "op_url sample_std ?cl ?op = Inr ''https://aiaas.pandorabots.com/bot/app/bot1''"
    by (simp add: botUrl_def appUrl_def bot_def sample_client_def)
  have plain: "CHR ''?'' \<notin> set ''https://aiaas.pandorabots.com/bot/app/bot1'' \<and>
      CHR ''#'' \<notin> set ''https://aiaas.pandorabots.com/bot/app/bot1''"
    by simp
  have "\<forall>req\<in>set (issued (perform sample_std ?cl ?op)).
      \<exists>u. op_url sample_std ?cl ?op = Inr u \<and> ReqURL req = u @ ''?'' @ Values_Encode ?V \<and>
          (CHR ''?'' \<notin> set u \<and> CHR ''#'' \<notin> set u \<longrightarrow>
             RawQuery (ReqURL req) = Values_Encode ?V)"
    using t by - (elim conjE, assumption)
  from bspec [OF this mem] obtain u' where a: "op_url sample_std ?cl ?op = Inr u'"
    and b: "ReqURL req = u' @ ''?'' @ Values_Encode ?V"
    and c: "CHR ''?'' \<notin> set u' \<and> CHR ''#'' \<notin> set u' \<longrightarrow> RawQuery (ReqURL req) = Values_Encode ?V"
    by blast
  from a have eq: "u' = ''https://aiaas.pandorabots.com/bot/app/bot1''"
    unfolding u by simp
  from b have url: "ReqURL req = ''https://aiaas.pandorabots.com/bot/app/bot1'' @ ''?'' @
      Values_Encode ?V"
    unfolding eq .
  from c plain have query: "RawQuery (ReqURL req) = Values_Encode ?V"
    unfolding eq by blast
  have keys: "dom ?V = insert ''user_key'' (dom (op_params ?op))"
    using t by - (elim conjE, assumption)
  from keys have "dom ?V = set [''user_key'', ''return'']"
    by simp
  from Values_Encode_keys [OF this] have "Values_Encode ?V = ''return=zip&user_key=key''"
    by (simp add: add_params_user_key sample_client_def QueryEscape_def escape_byte_def
        unreserved_def)
  with url query req show ?thesis
    by simp
qed

text \<open>
  The claim C3 as stated fails: names go into the URL as they are. \<^verbatim>\<open>CreateBot\<close> of a bot
  named \<^verbatim>\<open>a#b\<close> issues a request whose URL has the whole encoding in its fragment and an
  empty query string, without \<^verbatim>\<open>user_key\<close>; with the name \<^verbatim>\<open>bot1?user_key=evil\<close> the
  query string starts with that \<^verbatim>\<open>user_key=evil\<close>.
\<close>

theorem query_string_counterexample:
  "issued (perform sample_std (sample_client (sample_transport 200 [])) (OpCreateBot ''a#b''))
     = [\<lparr>Method = ''PUT'', ReqURL = ''https://aiaas.pandorabots.com/bot/app/a#b?user_key=key'',
         ReqBody = None\<rparr>] \<and>
   RawQuery ''https://aiaas.pandorabots.com/bot/app/a#b?user_key=key'' = [] \<and>
   issued (perform sample_std (sample_client (sample_transport 200 []))
             (OpCreateBot ''bot1?user_key=evil''))
     = [\<lparr>Method = ''PUT'',
         ReqURL = ''https://aiaas.pandorabots.com/bot/app/bot1?user_key=evil?user_key=key'',
         ReqBody = None\<rparr>] \<and>
   RawQuery ''https://aiaas.pandorabots.com/bot/app/bot1?user_key=evil?user_key=key''
     = ''user_key=evil?user_key=key''"
proof -
  have key: "userKey (sample_client (sample_transport 200 [])) = ''key''"
    by (simp add: sample_client_def)
  have url: "botUrl (sample_client (sample_transport 200 [])) bot name =
      ''https://aiaas.pandorabots.com/bot/app/'' @ name" for name
    by (simp add: botUrl_def appUrl_def bot_def sample_client_def)
  show ?thesis
    by (simp add: CreateBot_def no_result_def sample_issued key url sample_encode_user_key
        RawQuery_def Cut_def)
qed

text \<open>
  C4. The parameters of \<^verbatim>\<open>TalkDebug\<close>: \<^verbatim>\<open>input\<close> always; \<^verbatim>\<open>client_name\<close>, \<^verbatim>\<open>that\<close>,
  \<^verbatim>\<open>topic\<close> exactly when the string is not empty; \<^verbatim>\<open>sessionid\<close>, in decimal, exactly
  when the session id is not zero; \<^verbatim>\<open>recent\<close>, \<^verbatim>\<open>extra\<close>, \<^verbatim>\<open>reset\<close>, \<^verbatim>\<open>trace\<close>,
  \<^verbatim>\<open>reload\<close> with the value \<^verbatim>\<open>true\<close> exactly when the flag is set, and absent otherwise;
  no other key. The URL of the request is the talk URL of the bot, a question mark, and
  the encoding of values that hold, beside \<^verbatim>\<open>user_key\<close>, these parameters, each with one
  value. \<^verbatim>\<open>Talk\<close> is \<^verbatim>\<open>TalkDebug\<close> with empty \<^verbatim>\<open>that\<close> and \<^verbatim>\<open>topic\<close> and the four debug
  flags off, so the values that its requests encode have none of these six keys.
\<close>

theorem TalkDebug_parameters:
  "(let P = TalkDebug_params input clientName sessionId recent that topic extra reset trace reload;
        V = add_params P (Values_Set Map.empty ''user_key'' (userKey cl))
    in P ''input'' = Some input \<and>
       P ''client_name'' = (if clientName = [] then None else Some clientName) \<and>
       P ''that'' = (if that = [] then None else Some that) \<and>
       P ''topic'' = (if topic = [] then None else Some topic) \<and>
       P ''sessionid'' = (if sessionId = 0 then None else Some (Itoa sessionId)) \<and>
       P ''recent'' = (if recent then Some ''true'' else None) \<and>
       P ''extra'' = (if extra then Some ''true'' else None) \<and>
       P ''reset'' = (if reset then Some ''true'' else None) \<and>
       P ''trace'' = (if trace then Some ''true'' else None) \<and>
       P ''reload'' = (if reload then Some ''true'' else None) \<and>
       dom P \<subseteq> {''input'', ''client_name'', ''that'', ''topic'', ''sessionid'', ''recent'',
                 ''extra'', ''reset'', ''trace'', ''reload''} \<and>
       (\<forall>req\<in>set (issued (snd (TalkDebug std cl name input clientName sessionId recent that
                                   topic extra reset trace reload))).
          ReqURL req = botUrl cl talk name @ ''?'' @ Values_Encode V) \<and>
       (\<forall>k. k \<noteq> ''user_key'' \<longrightarrow> V k = map_option (\<lambda>v. [v]) (P k))) \<and>
   Talk std cl name input clientName sessionId recent =
     TalkDebug std cl name input clientName sessionId recent [] [] False False False False \<and>
   (let PT = TalkDebug_params input clientName sessionId recent [] [] False False False False;
        VT = add_params PT (Values_Set Map.empty ''user_key'' (userKey cl))
    in (\<forall>req\<in>set (issued (snd (Talk std cl name input clientName sessionId recent))).
          ReqURL req = botUrl cl talk name @ ''?'' @ Values_Encode VT) \<and>
       (\<forall>k\<in>{''that'', ''topic'', ''extra'', ''reset'', ''trace'', ''reload''}. VT k = None))"
proof -
  have url: "ReqURL req = botUrl cl talk name @ ''?'' @
      Values_Encode (add_params (TalkDebug_params inp cn sid rc th tp ex rs tr rl)
        (Values_Set Map.empty ''user_key'' (userKey cl)))"
    if "req \<in> set (issued (snd (TalkDebug std cl name inp cn sid rc th tp ex rs tr rl)))"
    for req inp cn sid rc th tp ex rs tr rl
  proof -
    from that have "req \<in> set (issued (snd (do std cl ''POST'' (botUrl cl talk name)
        (TalkDebug_params inp cn sid rc th tp ex rs tr rl) None
        (Ptr (json_Reply std) zero_Reply))))"
      by (simp add: TalkDebug_def case_prod_beta)
    from do_issued_url [OF this] show ?thesis .
  qed
  have talk: "\<forall>k\<in>{''that'', ''topic'', ''extra'', ''reset'', ''trace'', ''reload''}.
      add_params (TalkDebug_params input clientName sessionId recent [] [] False False False False)
        (Values_Set Map.empty ''user_key'' (userKey cl)) k = None"
    by (auto simp: add_params_user_key TalkDebug_params_apply)
  from TalkDebug_params_dom [of input clientName sessionId recent that topic extra reset trace
      reload] url talk
  show ?thesis
    by (simp add: Let_def TalkDebug_params_apply Talk_def add_params_user_key)
qed

theorem TalkDebug_parameters_witness:
  "(\<exists>req. issued (snd (TalkDebug sample_std (sample_client (sample_transport 200 ''{}'')) ''bot1''
                        ''hi'' [] 7 False [] ''weather'' False False True False)) = [req] \<and>
          ReqURL req = ''https://aiaas.pandorabots.com/talk/app/bot1?'' @
            ''input=hi&sessionid=7&topic=weather&trace=true&user_key=key'') \<and>
   (\<exists>req. issued (snd (Talk sample_std (sample_client (sample_transport 200 ''{}'')) ''bot1''
                        ''hi'' ''me'' 0 True)) = [req] \<and>
          ReqURL req = ''https://aiaas.pandorabots.com/talk/app/bot1?'' @
            ''client_name=me&input=hi&recent=true&user_key=key'')"
proof -
  let ?cl = "sample_client (sample_transport 200 ''{}'')"
  let ?P = "TalkDebug_params ''hi'' [] 7 False [] ''weather'' False False True False"
  let ?V = "add_params ?P (Values_Set Map.empty ''user_key'' (userKey ?cl))"
  let ?PT = "TalkDebug_params ''hi'' ''me'' 0 True [] [] False False False False"
  let ?VT = "add_params ?PT (Values_Set Map.empty ''user_key'' (userKey ?cl))"
  note t = TalkDebug_parameters [of "''hi''" "[]" 7 False "[]" "''weather''" False False True False
      ?cl sample_std "''bot1''", unfolded Let_def]
  note t' = TalkDebug_parameters [of "''hi''" "''me''" 0 True "[]" "[]" False False False False
      ?cl sample_std "''bot1''", unfolded Let_def]
  obtain req where req: "issued (snd (TalkDebug sample_std ?cl ''bot1''
      ''hi'' [] 7 False [] ''weather'' False False True False)) = [req]"
    by (simp add: TalkDebug_def case_prod_beta sample_issued)
  obtain req' where req': "issued (snd (Talk sample_std ?cl ''bot1'' ''hi'' ''me'' 0 True)) = [req']"
    by (simp add: Talk_def TalkDebug_def case_prod_beta sample_issued)
  have seven: "Itoa 7 = ''7''"
    by code_simp
  have base: "botUrl ?cl talk ''bot1'' = ''https://aiaas.pandorabots.com/talk/app/bot1''"
    by (simp add: botUrl_def appUrl_def talk_def sample_client_def)
  have key: "userKey ?cl = ''key''"
    by (simp add: sample_client_def)
  have "dom ?V = set [''user_key'', ''input'', ''sessionid'', ''topic'', ''trace'']"
    by (auto simp: add_params_user_key TalkDebug_params_apply dom_def split: if_splits)
  from Values_Encode_keys [OF this]
  have enc: "Values_Encode ?V = ''input=hi&sessionid=7&topic=weather&trace=true&user_key=key''"
    by (simp add: add_params_user_key TalkDebug_params_apply seven key QueryEscape_def
        escape_byte_def unreserved_def)
  have "dom ?VT = set [''user_key'', ''input'', ''client_name'', ''recent'']"
    by (auto simp: add_params_user_key TalkDebug_params_apply dom_def split: if_splits)
  from Values_Encode_keys [OF this]
  have enc': "Values_Encode ?VT = ''client_name=me&input=hi&recent=true&user_key=key''"
    by (simp add: add_params_user_key TalkDebug_params_apply key QueryEscape_def
        escape_byte_def unreserved_def)
  from req have "req \<in> set (issued (snd (TalkDebug sample_std ?cl ''bot1''
      ''hi'' [] 7 False [] ''weather'' False False True False)))"
    by simp
  moreover have "\<forall>req\<in>set (issued (snd (TalkDebug sample_std ?cl ''bot1''
      ''hi'' [] 7 False [] ''weather'' False False True False))).
      ReqURL req = botUrl ?cl talk ''bot1'' @ ''?'' @ Values_Encode ?V"
    using t by - (elim conjE, assumption)
  ultimately have "ReqURL req = botUrl ?cl talk ''bot1'' @ ''?'' @ Values_Encode ?V"
    by (rule bspec [rotated])
  with base enc have 1: "ReqURL req = ''https://aiaas.pandorabots.com/talk/app/bot1?'' @
      ''input=hi&sessionid=7&topic=weather&trace=true&user_key=key''"
    by simp
  from req' have "req' \<in> set (issued (snd (Talk sample_std ?cl ''bot1'' ''hi'' ''me'' 0 True)))"
    by simp
  moreover have "\<forall>req\<in>set (issued (snd (Talk sample_std ?cl ''bot1'' ''hi'' ''me'' 0 True))).
      ReqURL req = botUrl ?cl talk ''bot1'' @ ''?'' @ Values_Encode ?VT"
    using t' by - (elim conjE, assumption)
  ultimately have "ReqURL req' = botUrl ?cl talk ''bot1'' @ ''?'' @ Values_Encode ?VT"
    by (rule bspec [rotated])
  with base enc' have 2: "ReqURL req' = ''https://aiaas.pandorabots.com/talk/app/bot1?'' @
      ''client_name=me&input=hi&recent=true&user_key=key''"
    by simp
  from 1 2 req req' show ?thesis by blast
qed

section \<open>The response body after the call\<close>

lemma do_body:
  "\<forall>req\<in>set (issued (snd (do std cl m u ps b r))). \<forall>resp. c cl req = Inr resp \<longrightarrow>
     (\<exists>bd. final_body (snd (do std cl m u ps b r)) = Some bd \<and> closed bd \<and>
           (\<exists>k. unread bd = drop k (unread (Body resp))) \<and>
           ((if StatusCode resp < 200 \<or> 300 \<le> StatusCode resp
             then errorlog cl \<noteq> None else tracelog cl \<noteq> None) \<longrightarrow> unread bd = []))"
proof (intro ballI allI impI)
  fix req resp
  assume req: "req \<in> set (issued (snd (do std cl m u ps b r)))" and resp: "c cl req = Inr resp"
  show "\<exists>bd. final_body (snd (do std cl m u ps b r)) = Some bd \<and> closed bd \<and>
           (\<exists>k. unread bd = drop k (unread (Body resp))) \<and>
           ((if StatusCode resp < 200 \<or> 300 \<le> StatusCode resp
             then errorlog cl \<noteq> None else tracelog cl \<noteq> None) \<longrightarrow> unread bd = [])"
  proof (cases "StatusCode resp < 200 \<or> 300 \<le> StatusCode resp")
    case True
    from do_bad_status(4) [OF req resp True] True show ?thesis by simp
  next
    case False
    then have "200 \<le> StatusCode resp" "StatusCode resp < 300" by simp_all
    from do_good_status_body [OF req resp this] False show ?thesis by simp
  qed
qed

text \<open>
  C9, as the code has it. Whenever an operation has handed a request to the transport and
  the transport has answered, the body of the response is closed when the operation
  returns, on every path: success, status failure, failure of the copy or of the decoder.
  What is then left unread is a suffix of its bytes, and it is empty when the response
  was dumped to a log (the error log on a status outside 200..299, the trace log
  otherwise).
\<close>

theorem response_body_closed:
  "\<forall>req\<in>set (issued (perform std cl op)). \<forall>resp. c cl req = Inr resp \<longrightarrow>
     (\<exists>bd. final_body (perform std cl op) = Some bd \<and> closed bd \<and>
           (\<exists>k. unread bd = drop k (unread (Body resp))) \<and>
           ((if StatusCode resp < 200 \<or> 300 \<le> StatusCode resp
             then errorlog cl \<noteq> None else tracelog cl \<noteq> None) \<longrightarrow> unread bd = []))"
proof -
  let ?P = "\<lambda>eff. \<forall>req\<in>set (issued eff). \<forall>resp. c cl req = Inr resp \<longrightarrow>
     (\<exists>bd. final_body eff = Some bd \<and> closed bd \<and>
           (\<exists>k. unread bd = drop k (unread (Body resp))) \<and>
           ((if StatusCode resp < 200 \<or> 300 \<le> StatusCode resp
             then errorlog cl \<noteq> None else tracelog cl \<noteq> None) \<longrightarrow> unread bd = []))"
  have "?P (failed e)" for e
    by (simp add: failed_def)
  then show "?P (perform std cl op)"
    by (rule perform_via_do [where P = ?P, OF do_body do_body do_body do_body])
qed

theorem response_body_closed_witness:
  "(\<exists>bd. final_body (perform sample_std
             ((sample_client (sample_transport 500 ''oops''))\<lparr>errorlog := Some 1\<rparr>)
             (OpVerify ''bot1'')) = Some bd \<and> closed bd \<and> unread bd = [])"
proof -
  let ?cl = "(sample_client (sample_transport 500 ''oops''))\<lparr>errorlog := Some 1\<rparr>"
  let ?resp = "\<lparr>StatusCode = 500, Body = \<lparr>unread = ''oops'', closed = False\<rparr>\<rparr>"
  note t = response_body_closed [of sample_std ?cl "OpVerify ''bot1''"]
  obtain req where req: "req \<in> set (issued (perform sample_std ?cl (OpVerify ''bot1'')))"
    by (simp add: Verify_def sample_issued)
  have resp: "c ?cl req = Inr ?resp"
    by (simp add: sample_client_def sample_transport_def)
  from t req resp have "\<exists>bd. final_body (perform sample_std ?cl (OpVerify ''bot1'')) = Some bd \<and>
      closed bd \<and> (\<exists>k. unread bd = drop k (unread (Body ?resp))) \<and>
      ((if StatusCode ?resp < 200 \<or> 300 \<le> StatusCode ?resp
        then errorlog ?cl \<noteq> None else tracelog ?cl \<noteq> None) \<longrightarrow> unread bd = [])"
    by blast
  then have "\<exists>bd. final_body (perform sample_std ?cl (OpVerify ''bot1'')) = Some bd \<and>
      closed bd \<and> (\<exists>k. unread bd = drop k ''oops'') \<and> unread bd = []"
    by simp
  then show ?thesis
    by blast
qed

text \<open>
  The claim C9 as stated fails: \<^verbatim>\<open>CreateBot\<close> on a client without logs, answered with
  status 200 and a body of seven bytes, closes the body with all seven bytes unread.
\<close>

theorem body_not_drained_counterexample:
  "final_body (perform sample_std (sample_client (sample_transport 200 ''created''))
                 (OpCreateBot ''bot1''))
     = Some \<lparr>unread = ''created'', closed = True\<rparr>"
  by (simp add: CreateBot_def no_result_def do_def Let_def sample_std_def sample_client_def
      sample_transport_def handleError_def dumpResponse_def dumpRequest_def deferred_Close_def)

section \<open>Result decoding\<close>

lemma do_decoding:
  "\<forall>req\<in>set (issued (snd (do std cl m u ps b r))). \<forall>resp.
     c cl req = Inr resp \<and> 200 \<le> StatusCode resp \<and> StatusCode resp < 300 \<longrightarrow>
     (case r of
        NilResult \<Rightarrow>
          fst (do std cl m u ps b r) = NilResult \<and>
          decoding (snd (do std cl m u ps b r)) = NotAttempted \<and>
          err (snd (do std cl m u ps b r)) = None
      | Writer w \<Rightarrow>
          decoding (snd (do std cl m u ps b r)) = RawCopy \<and>
          (write_err w = None \<longrightarrow>
             fst (do std cl m u ps b r) =
               Writer (w\<lparr>written := written w @ unread (Body resp)\<rparr>) \<and>
             err (snd (do std cl m u ps b r)) = None) \<and>
          (\<forall>e. write_err w = Some e \<and> unread (Body resp) \<noteq> [] \<longrightarrow>
             fst (do std cl m u ps b r) = Writer w \<and>
             err (snd (do std cl m u ps b r)) = Some (CopyError e))
      | Ptr dec v \<Rightarrow>
          decoding (snd (do std cl m u ps b r)) = JsonDecode \<and>
          fst (do std cl m u ps b r) = Ptr dec (fst (snd (dec (unread (Body resp)) v))) \<and>
          err (snd (do std cl m u ps b r)) =
            map_option DecodeError (fst (dec (unread (Body resp)) v)))"
proof (intro ballI allI impI, elim conjE)
  fix req resp
  assume req: "req \<in> set (issued (snd (do std cl m u ps b r)))" and resp: "c cl req = Inr resp"
    and good: "200 \<le> StatusCode resp" "StatusCode resp < 300"
  have body: "unread (Body (fst (snd (dumpResponse std cl resp)))) = unread (Body resp)"
    by (simp add: dumpResponse_cases split: option.splits)
  show "case r of
        NilResult \<Rightarrow>
          fst (do std cl m u ps b r) = NilResult \<and>
          decoding (snd (do std cl m u ps b r)) = NotAttempted \<and>
          err (snd (do std cl m u ps b r)) = None
      | Writer w \<Rightarrow>
          decoding (snd (do std cl m u ps b r)) = RawCopy \<and>
          (write_err w = None \<longrightarrow>
             fst (do std cl m u ps b r) =
               Writer (w\<lparr>written := written w @ unread (Body resp)\<rparr>) \<and>
             err (snd (do std cl m u ps b r)) = None) \<and>
          (\<forall>e. write_err w = Some e \<and> unread (Body resp) \<noteq> [] \<longrightarrow>
             fst (do std cl m u ps b r) = Writer w \<and>
             err (snd (do std cl m u ps b r)) = Some (CopyError e))
      | Ptr dec v \<Rightarrow>
          decoding (snd (do std cl m u ps b r)) = JsonDecode \<and>
          fst (do std cl m u ps b r) = Ptr dec (fst (snd (dec (unread (Body resp)) v))) \<and>
          err (snd (do std cl m u ps b r)) =
            map_option DecodeError (fst (dec (unread (Body resp)) v))"
    unfolding do_good_status [OF req resp good]
    using body
    by (auto simp: io_Copy_def split: Result.splits prod.splits option.splits)
qed


lemma do_writer:
  assumes "r = Writer w"
    and "req \<in> set (issued (snd (do std cl m u ps b r)))" "c cl req = Inr resp"
    and "200 \<le> StatusCode resp" "StatusCode resp < 300" "write_err w = None"
  shows "fst (do std cl m u ps b r) = Writer (w\<lparr>written := written w @ unread (Body resp)\<rparr>)"
    and "err (snd (do std cl m u ps b r)) = None"
proof -
  have "\<forall>req\<in>set (issued (snd (do std cl m u ps b r))). \<forall>resp.
     c cl req = Inr resp \<and> 200 \<le> StatusCode resp \<and> StatusCode resp < 300 \<longrightarrow>
     decoding (snd (do std cl m u ps b r)) = RawCopy \<and>
     (write_err w = None \<longrightarrow>
        fst (do std cl m u ps b r) =
          Writer (w\<lparr>written := written w @ unread (Body resp)\<rparr>) \<and>
        err (snd (do std cl m u ps b r)) = None) \<and>
     (\<forall>e. write_err w = Some e \<and> unread (Body resp) \<noteq> [] \<longrightarrow>
        fst (do std cl m u ps b r) = Writer w \<and>
        err (snd (do std cl m u ps b r)) = Some (CopyError e))"
    using do_decoding [of std cl m u ps b r] unfolding assms(1) Result.case .
  with assms(2-) show "fst (do std cl m u ps b r) =
      Writer (w\<lparr>written := written w @ unread (Body resp)\<rparr>)"
    and "err (snd (do std cl m u ps b r)) = None"
    by blast+
qed

lemma do_ptr:
  assumes "req \<in> set (issued (snd (do std cl m u ps b (Ptr dec v))))" "c cl req = Inr resp"
    and "200 \<le> StatusCode resp" "StatusCode resp < 300"
  shows "fst (do std cl m u ps b (Ptr dec v)) = Ptr dec (fst (snd (dec (unread (Body resp)) v)))"
    and "err (snd (do std cl m u ps b (Ptr dec v))) =
           map_option DecodeError (fst (dec (unread (Body resp)) v))"
proof -
  have "\<forall>req\<in>set (issued (snd (do std cl m u ps b (Ptr dec v)))). \<forall>resp.
     c cl req = Inr resp \<and> 200 \<le> StatusCode resp \<and> StatusCode resp < 300 \<longrightarrow>
     decoding (snd (do std cl m u ps b (Ptr dec v))) = JsonDecode \<and>
     fst (do std cl m u ps b (Ptr dec v)) = Ptr dec (fst (snd (dec (unread (Body resp)) v))) \<and>
     err (snd (do std cl m u ps b (Ptr dec v))) =
       map_option DecodeError (fst (dec (unread (Body resp)) v))"
    using do_decoding [of std cl m u ps b "Ptr dec v", unfolded Result.case] .
  with assms show "fst (do std cl m u ps b (Ptr dec v)) =
      Ptr dec (fst (snd (dec (unread (Body resp)) v)))"
    and "err (snd (do std cl m u ps b (Ptr dec v))) =
           map_option DecodeError (fst (dec (unread (Body resp)) v))"
    by blast+
qed

text \<open>
  C5. On a status in 200..299: with no destination nothing is decoded; with an
  \<^verbatim>\<open>io.Writer\<close> the body is copied to it, so that a writer that accepts its input holds
  afterwards what it held before followed by exactly the bytes of the body, and a writer
  that rejects it makes \<^verbatim>\<open>do\<close> return the writer's error; with any other destination the
  JSON decoder of its type is run on the body, the destination holds what the decoder
  leaves there, and an error of the decoder is the error that \<^verbatim>\<open>do\<close> returns. So
  \<^verbatim>\<open>DownloadFiles\<close> and \<^verbatim>\<open>GetFile\<close> append the body to the caller's writer, and \<^verbatim>\<open>List\<close>,
  \<^verbatim>\<open>ListFiles\<close> and \<^verbatim>\<open>TalkDebug\<close> return what the decoder made of the body, with its error.
\<close>


theorem result_decoding:
  "(\<forall>req\<in>set (issued (snd (do std cl m u ps b r))). \<forall>resp.
     c cl req = Inr resp \<and> 200 \<le> StatusCode resp \<and> StatusCode resp < 300 \<longrightarrow>
     (case r of
        NilResult \<Rightarrow>
          fst (do std cl m u ps b r) = NilResult \<and>
          decoding (snd (do std cl m u ps b r)) = NotAttempted \<and>
          err (snd (do std cl m u ps b r)) = None
      | Writer w \<Rightarrow>
          decoding (snd (do std cl m u ps b r)) = RawCopy \<and>
          (write_err w = None \<longrightarrow>
             fst (do std cl m u ps b r) =
               Writer (w\<lparr>written := written w @ unread (Body resp)\<rparr>) \<and>
             err (snd (do std cl m u ps b r)) = None) \<and>
          (\<forall>e. write_err w = Some e \<and> unread (Body resp) \<noteq> [] \<longrightarrow>
             fst (do std cl m u ps b r) = Writer w \<and>
             err (snd (do std cl m u ps b r)) = Some (CopyError e))
      | Ptr dec v \<Rightarrow>
          decoding (snd (do std cl m u ps b r)) = JsonDecode \<and>
          fst (do std cl m u ps b r) = Ptr dec (fst (snd (dec (unread (Body resp)) v))) \<and>
          err (snd (do std cl m u ps b r)) =
            map_option DecodeError (fst (dec (unread (Body resp)) v)))) \<and>
   (\<forall>req\<in>set (issued (snd (DownloadFiles std cl name (Some w)))). \<forall>resp.
      c cl req = Inr resp \<and> 200 \<le> StatusCode resp \<and> StatusCode resp < 300 \<and>
      write_err w = None \<longrightarrow>
      fst (DownloadFiles std cl name (Some w)) =
        Some (w\<lparr>written := written w @ unread (Body resp)\<rparr>) \<and>
      err (snd (DownloadFiles std cl name (Some w))) = None) \<and>
   (\<forall>req\<in>set (issued (snd (GetFile std cl name filename (Some w)))). \<forall>resp.
      c cl req = Inr resp \<and> 200 \<le> StatusCode resp \<and> StatusCode resp < 300 \<and>
      write_err w = None \<longrightarrow>
      fst (GetFile std cl name filename (Some w)) =
        Some (w\<lparr>written := written w @ unread (Body resp)\<rparr>) \<and>
      err (snd (GetFile std cl name filename (Some w))) = None) \<and>
   (\<forall>req\<in>set (issued (snd (List std cl))). \<forall>resp.
      c cl req = Inr resp \<and> 200 \<le> StatusCode resp \<and> StatusCode resp < 300 \<longrightarrow>
      fst (List std cl) = fst (snd (json_BotEntries std (unread (Body resp)) [])) \<and>
      err (snd (List std cl)) =
        map_option DecodeError (fst (json_BotEntries std (unread (Body resp)) []))) \<and>
   (\<forall>req\<in>set (issued (snd (ListFiles std cl name))). \<forall>resp.
      c cl req = Inr resp \<and> 200 \<le> StatusCode resp \<and> StatusCode resp < 300 \<longrightarrow>
      fst (ListFiles std cl name) =
        fst (snd (json_BotFiles std (unread (Body resp)) zero_BotFiles)) \<and>
      err (snd (ListFiles std cl name)) =
        map_option DecodeError (fst (json_BotFiles std (unread (Body resp)) zero_BotFiles))) \<and>
   (\<forall>req\<in>set (issued (snd (TalkDebug std cl name input clientName sessionId recent that topic
                               extra reset trace reload))). \<forall>resp.
      c cl req = Inr resp \<and> 200 \<le> StatusCode resp \<and> StatusCode resp < 300 \<longrightarrow>
      fst (TalkDebug std cl name input clientName sessionId recent that topic extra reset
             trace reload) =
        Some (fst (snd (json_Reply std (unread (Body resp)) zero_Reply))) \<and>
      err (snd (TalkDebug std cl name input clientName sessionId recent that topic extra reset
                  trace reload)) =
        map_option DecodeError (fst (json_Reply std (unread (Body resp)) zero_Reply)))"
proof (intro conjI)
  show "\<forall>req\<in>set (issued (snd (do std cl m u ps b r))). \<forall>resp.
     c cl req = Inr resp \<and> 200 \<le> StatusCode resp \<and> StatusCode resp < 300 \<longrightarrow>
     (case r of
        NilResult \<Rightarrow>
          fst (do std cl m u ps b r) = NilResult \<and>
          decoding (snd (do std cl m u ps b r)) = NotAttempted \<and>
          err (snd (do std cl m u ps b r)) = None
      | Writer w \<Rightarrow>
          decoding (snd (do std cl m u ps b r)) = RawCopy \<and>
          (write_err w = None \<longrightarrow>
             fst (do std cl m u ps b r) =
               Writer (w\<lparr>written := written w @ unread (Body resp)\<rparr>) \<and>
             err (snd (do std cl m u ps b r)) = None) \<and>
          (\<forall>e. write_err w = Some e \<and> unread (Body resp) \<noteq> [] \<longrightarrow>
             fst (do std cl m u ps b r) = Writer w \<and>
             err (snd (do std cl m u ps b r)) = Some (CopyError e))
      | Ptr dec v \<Rightarrow>
          decoding (snd (do std cl m u ps b r)) = JsonDecode \<and>
          fst (do std cl m u ps b r) = Ptr dec (fst (snd (dec (unread (Body resp)) v))) \<and>
          err (snd (do std cl m u ps b r)) =
            map_option DecodeError (fst (dec (unread (Body resp)) v)))"
    by (rule do_decoding)
next
  show "\<forall>req\<in>set (issued (snd (DownloadFiles std cl name (Some w)))). \<forall>resp.
      c cl req = Inr resp \<and> 200 \<le> StatusCode resp \<and> StatusCode resp < 300 \<and>
      write_err w = None \<longrightarrow>
      fst (DownloadFiles std cl name (Some w)) =
        Some (w\<lparr>written := written w @ unread (Body resp)\<rparr>) \<and>
      err (snd (DownloadFiles std cl name (Some w))) = None"
    by (auto simp: DownloadFiles_def case_prod_beta as_writer_def sink_of_def
        do_writer [OF refl])
next
  show "\<forall>req\<in>set (issued (snd (GetFile std cl name filename (Some w)))). \<forall>resp.
      c cl req = Inr resp \<and> 200 \<le> StatusCode resp \<and> StatusCode resp < 300 \<and>
      write_err w = None \<longrightarrow>
      fst (GetFile std cl name filename (Some w)) =
        Some (w\<lparr>written := written w @ unread (Body resp)\<rparr>) \<and>
      err (snd (GetFile std cl name filename (Some w))) = None"
    by (auto simp: GetFile_def case_prod_beta as_writer_def sink_of_def failed_def
        do_writer [OF refl] split: sum.splits)
next
  show "\<forall>req\<in>set (issued (snd (List std cl))). \<forall>resp.
      c cl req = Inr resp \<and> 200 \<le> StatusCode resp \<and> StatusCode resp < 300 \<longrightarrow>
      fst (List std cl) = fst (snd (json_BotEntries std (unread (Body resp)) [])) \<and>
      err (snd (List std cl)) =
        map_option DecodeError (fst (json_BotEntries std (unread (Body resp)) []))"
    by (auto simp: List_def case_prod_beta deref_def do_ptr)
next
  show "\<forall>req\<in>set (issued (snd (ListFiles std cl name))). \<forall>resp.
      c cl req = Inr resp \<and> 200 \<le> StatusCode resp \<and> StatusCode resp < 300 \<longrightarrow>
      fst (ListFiles std cl name) =
        fst (snd (json_BotFiles std (unread (Body resp)) zero_BotFiles)) \<and>
      err (snd (ListFiles std cl name)) =
        map_option DecodeError (fst (json_BotFiles std (unread (Body resp)) zero_BotFiles))"
    by (auto simp: ListFiles_def case_prod_beta deref_def do_ptr)
next
  show "\<forall>req\<in>set (issued (snd (TalkDebug std cl name input clientName sessionId recent that topic
                               extra reset trace reload))). \<forall>resp.
      c cl req = Inr resp \<and> 200 \<le> StatusCode resp \<and> StatusCode resp < 300 \<longrightarrow>
      fst (TalkDebug std cl name input clientName sessionId recent that topic extra reset
             trace reload) =
        Some (fst (snd (json_Reply std (unread (Body resp)) zero_Reply))) \<and>
      err (snd (TalkDebug std cl name input clientName sessionId recent that topic extra reset
                  trace reload)) =
        map_option DecodeError (fst (json_Reply std (unread (Body resp)) zero_Reply))"
    by (auto simp: TalkDebug_def case_prod_beta deref_def do_ptr)
qed

theorem result_decoding_witness:
  "fst (DownloadFiles sample_std (sample_client (sample_transport 200 ''PK34'')) ''bot1''
         (Some \<lparr>written = ''old'', write_err = None\<rparr>))
     = Some \<lparr>written = ''oldPK34'', write_err = None\<rparr> \<and>
   err (snd (TalkDebug sample_std (sample_client (sample_transport 200 ''<html>'')) ''bot1''
              ''hi'' [] 0 False [] [] False False False False))
     = Some (DecodeError ''invalid character'')"
proof -
  let ?cl1 = "sample_client (sample_transport 200 ''PK34'')"
  let ?cl2 = "sample_client (sample_transport 200 ''<html>'')"
  let ?w = "\<lparr>written = ''old'', write_err = None\<rparr>"
  let ?r1 = "\<lparr>StatusCode = 200, Body = \<lparr>unread = ''PK34'', closed = False\<rparr>\<rparr>"
  let ?r2 = "\<lparr>StatusCode = 200, Body = \<lparr>unread = ''<html>'', closed = False\<rparr>\<rparr>"
  note t1 = result_decoding [of sample_std ?cl1 "''GET''" "''u''" Map.empty None
      "NilResult :: unit Result" "''bot1''" ?w "''f.aiml''" "''hi''" "[]" 0 False "[]" "[]"
      False False False False]
  note t2 = result_decoding [of sample_std ?cl2 "''GET''" "''u''" Map.empty None
      "NilResult :: unit Result" "''bot1''" ?w "''f.aiml''" "''hi''" "[]" 0 False "[]" "[]"
      False False False False]
  obtain req1 where req1: "req1 \<in> set (issued (snd (DownloadFiles sample_std ?cl1 ''bot1''
      (Some ?w))))"
    by (simp add: DownloadFiles_def case_prod_beta sample_issued)
  obtain req2 where req2: "req2 \<in> set (issued (snd (TalkDebug sample_std ?cl2 ''bot1''
      ''hi'' [] 0 False [] [] False False False False)))"
    by (simp add: TalkDebug_def case_prod_beta sample_issued)
  have a1: "c ?cl1 req1 = Inr ?r1 \<and> 200 \<le> StatusCode ?r1 \<and> StatusCode ?r1 < 300 \<and>
      write_err ?w = None"
    by (simp add: sample_client_def sample_transport_def)
  have a2: "c ?cl2 req2 = Inr ?r2 \<and> 200 \<le> StatusCode ?r2 \<and> StatusCode ?r2 < 300"
    by (simp add: sample_client_def sample_transport_def)
  from t1 req1 a1 have "fst (DownloadFiles sample_std ?cl1 ''bot1'' (Some ?w)) =
      Some (?w\<lparr>written := written ?w @ unread (Body ?r1)\<rparr>)"
    by blast
  then have 1: "fst (DownloadFiles sample_std ?cl1 ''bot1'' (Some ?w)) =
      Some \<lparr>written = ''oldPK34'', write_err = None\<rparr>"
    by simp
  from t2 req2 a2 have "err (snd (TalkDebug sample_std ?cl2 ''bot1''
      ''hi'' [] 0 False [] [] False False False False)) =
      map_option DecodeError (fst (json_Reply sample_std (unread (Body ?r2)) zero_Reply))"
    by blast
  then have 2: "err (snd (TalkDebug sample_std ?cl2 ''bot1''
      ''hi'' [] 0 False [] [] False False False False)) = Some (DecodeError ''invalid character'')"
    by (simp add: sample_std_def sample_json_def)
  from 1 2 show ?thesis by simp
qed

section \<open>The reply of a talk\<close>

text \<open>
  Where \<^verbatim>\<open>do\<close> stops before any decoding, it hands the destination back as it got it:
  when \<^verbatim>\<open>http.NewRequest\<close> fails, when the transport fails, and on a status outside
  200..299.
\<close>

lemma do_early_failure:
  assumes "err (snd (do std cl m u ps b r)) = Some e"
    and "e = RequestError msg \<or> e = TransportError msg \<or> e = ErrorsNew msg"
  shows "fst (do std cl m u ps b r) = r"
    and "decoding (snd (do std cl m u ps b r)) = NotAttempted"
  using assms
  by (auto simp: do_def Let_def
      split: option.splits sum.splits prod.splits Result.splits if_splits)

lemma do_decode_failure:
  assumes "err (snd (do std cl m u ps b (Ptr dec v))) = Some (DecodeError msg)"
  shows "\<exists>bs. fst (dec bs v) = Some msg \<and>
              fst (do std cl m u ps b (Ptr dec v)) = Ptr dec (fst (snd (dec bs v)))"
  using assms
  by (auto simp: do_def Let_def handleError_def
      split: option.splits sum.splits prod.splits Result.splits if_splits)
     (metis fst_conv snd_conv)+

text \<open>
  C10. \<^verbatim>\<open>TalkDebug\<close> and \<^verbatim>\<open>Talk\<close> return a non-nil \<^verbatim>\<open>*Reply\<close> on every input, also with
  an error. When the error comes from building the request, from the transport or from
  the status, the reply is the zero value; when it comes from the decoder, the reply is
  what the decoder left in the zero value.
\<close>

theorem Talk_reply_not_nil:
  "fst (TalkDebug std cl name input clientName sessionId recent that topic extra reset trace
          reload) \<noteq> None \<and>
   fst (Talk std cl name input clientName sessionId recent) \<noteq> None \<and>
   (\<forall>msg. err (snd (TalkDebug std cl name input clientName sessionId recent that topic extra
                       reset trace reload))
            \<in> {Some (RequestError msg), Some (TransportError msg), Some (ErrorsNew msg)} \<longrightarrow>
      fst (TalkDebug std cl name input clientName sessionId recent that topic extra reset trace
             reload) = Some zero_Reply) \<and>
   (\<forall>msg. err (snd (TalkDebug std cl name input clientName sessionId recent that topic extra
                       reset trace reload)) = Some (DecodeError msg) \<longrightarrow>
      (\<exists>bs. fst (json_Reply std bs zero_Reply) = Some msg \<and>
            fst (TalkDebug std cl name input clientName sessionId recent that topic extra reset
                   trace reload) = Some (fst (snd (json_Reply std bs zero_Reply)))))"
proof -
  let ?ps = "TalkDebug_params input clientName sessionId recent that topic extra reset trace reload"
  let ?do = "do std cl ''POST'' (botUrl cl talk name) ?ps None (Ptr (json_Reply std) zero_Reply)"
  have td: "TalkDebug std cl name input clientName sessionId recent that topic extra reset trace
      reload = (Some (deref (fst ?do) zero_Reply), snd ?do)"
    by (simp add: TalkDebug_def case_prod_beta)
  have early: "deref (fst ?do) zero_Reply = zero_Reply"
    if "err (snd ?do) \<in> {Some (RequestError msg), Some (TransportError msg), Some (ErrorsNew msg)}"
    for msg
  proof -
    from that obtain e where "err (snd ?do) = Some e"
      and "e = RequestError msg \<or> e = TransportError msg \<or> e = ErrorsNew msg"
      by auto
    from do_early_failure(1) [OF this] show ?thesis
      by (simp add: deref_def)
  qed
  have late: "\<exists>bs. fst (json_Reply std bs zero_Reply) = Some msg \<and>
      deref (fst ?do) zero_Reply = fst (snd (json_Reply std bs zero_Reply))"
    if "err (snd ?do) = Some (DecodeError msg)" for msg
    using do_decode_failure [OF that] by (auto simp: deref_def)
  have nn: "fst (TalkDebug std cl nm inp cn sid rc th tp ex rs tr rl) \<noteq> None"
    for nm inp cn sid rc th tp ex rs tr rl
    by (simp add: TalkDebug_def case_prod_beta)
  have 1: "fst (Talk std cl name input clientName sessionId recent) \<noteq> None"
    unfolding Talk_def by (rule nn)
  have 2: "\<forall>msg. err (snd (TalkDebug std cl name input clientName sessionId recent that topic extra
                       reset trace reload))
            \<in> {Some (RequestError msg), Some (TransportError msg), Some (ErrorsNew msg)} \<longrightarrow>
      fst (TalkDebug std cl name input clientName sessionId recent that topic extra reset trace
             reload) = Some zero_Reply"
    using early unfolding td by simp
  have 3: "\<forall>msg. err (snd (TalkDebug std cl name input clientName sessionId recent that topic extra
                       reset trace reload)) = Some (DecodeError msg) \<longrightarrow>
      (\<exists>bs. fst (json_Reply std bs zero_Reply) = Some msg \<and>
            fst (TalkDebug std cl name input clientName sessionId recent that topic extra reset
                   trace reload) = Some (fst (snd (json_Reply std bs zero_Reply))))"
    using late unfolding td by simp
  from nn 1 2 3 show ?thesis
    by blast
qed

theorem Talk_reply_not_nil_witness:
  "TalkDebug sample_std (sample_client (sample_transport 404 ''gone'')) ''bot1'' ''hi'' [] 0 False
     [] [] False False False False
   = (Some zero_Reply,
      \<lparr>err = Some (ErrorsNew ''Unexpected status code: 404 (Not Found)''),
       issued = [\<lparr>Method = ''POST'',
                  ReqURL = ''https://aiaas.pandorabots.com/talk/app/bot1?input=hi&user_key=key'',
                  ReqBody = None\<rparr>],
       final_body = Some \<lparr>unread = ''gone'', closed = True\<rparr>,
       logged = [], decoding = NotAttempted\<rparr>)"
proof -
  let ?cl = "sample_client (sample_transport 404 ''gone'')"
  let ?call = "TalkDebug sample_std ?cl ''bot1'' ''hi'' [] 0 False [] [] False False False False"
  note t = Talk_reply_not_nil [of sample_std ?cl "''bot1''" "''hi''" "[]" 0 False "[]" "[]"
      False False False False]
  have code: "Itoa 404 = ''404''"
    by code_simp
  have "dom (add_params [''input'' \<mapsto> ''hi''] (Values_Set Map.empty ''user_key'' ''key'')) =
      set [''user_key'', ''input'']"
    by (simp add: request_values(3))
  from Values_Encode_keys [OF this]
  have enc: "Values_Encode (add_params [''input'' \<mapsto> ''hi'']
      (Values_Set Map.empty ''user_key'' ''key'')) = ''input=hi&user_key=key''"
    by (simp add: add_params_user_key QueryEscape_def escape_byte_def unreserved_def)
  have eff: "snd ?call =
      \<lparr>err = Some (ErrorsNew ''Unexpected status code: 404 (Not Found)''),
       issued = [\<lparr>Method = ''POST'',
                  ReqURL = ''https://aiaas.pandorabots.com/talk/app/bot1?input=hi&user_key=key'',
                  ReqBody = None\<rparr>],
       final_body = Some \<lparr>unread = ''gone'', closed = True\<rparr>,
       logged = [], decoding = NotAttempted\<rparr>"
    by (simp add: TalkDebug_def TalkDebug_params_def do_def Let_def sample_std_def
        sample_client_def sample_transport_def handleError_def errorf_def dumpRequest_def
        deferred_Close_def sample_StatusText_def botUrl_def appUrl_def talk_def code enc)
  then have "err (snd ?call) \<in> {Some (RequestError ''Unexpected status code: 404 (Not Found)''),
      Some (TransportError ''Unexpected status code: 404 (Not Found)''),
      Some (ErrorsNew ''Unexpected status code: 404 (Not Found)'')}"
    by simp
  with t have "fst ?call = Some zero_Reply"
    by blast
  with eff show ?thesis
    by (simp add: prod_eq_iff)
qed

end
